theory Spec2Isabelle
  imports Main "HOL-Library.Sublist"
begin

section \<open>Python values, strings and errors\<close>

text \<open>
  The module \<^verbatim>\<open>db_controller/database_backend.py\<close> is a PostgreSQL persistence layer written
  against the psycopg2 driver. Strings are \<open>char list\<close>; a character stands for one code point
  of the Latin-1 range. Values that travel through database rows and query parameters are
  the scalars below; \<open>SDatetime\<close> carries the text that \<^verbatim>\<open>str()\<close> yields for the datetime.
\<close>

datatype scalar = SNone | SBool bool | SInt int | SStr string | SDatetime string

text \<open>Values handed to \<^verbatim>\<open>json.dumps\<close>: scalars, lists and dicts with string keys.\<close>

datatype pyval = Scalar scalar | PList "pyval list" | PDict "(string \<times> pyval) list"

text \<open>
  Modelled from the spec: \<^verbatim>\<open>db_controller/mvc_exceptions.py\<close> is imported by the module
  and is not among the sources. The spec's error taxonomy lists its connection error and
  its not-stored error as kinds of their own, distinct from the transaction error, so
  \<open>ConnectionError\<close> and \<open>ItemNotStored\<close> are constructors of their own and no
  \<^verbatim>\<open>except SQLAlchemyError\<close> clause catches them.

  The other constructors are Python's built-in exceptions, the driver's
  (\<^verbatim>\<open>psycopg2.Error\<close>) and SQLAlchemy's (\<^verbatim>\<open>sqlalchemy.exc.SQLAlchemyError\<close>). The driver's
  errors and SQLAlchemy's are unrelated classes, both deriving from \<^verbatim>\<open>Exception\<close> only; the
  module itself names the driver's class, \<^verbatim>\<open>psycopg2.Error\<close>, where it catches a failed
  \<^verbatim>\<open>psycopg2.connect\<close> in \<^verbatim>\<open>session_to_db\<close>.
\<close>

datatype py_error =
    TypeError | KeyError | IndexError | ValueError | NameError
  | Psycopg2Error string
  | SQLAlchemyError string
  | ConnectionError string
  | ItemNotStored string

subsection \<open>\<^verbatim>\<open>str()\<close>, truth values, \<^verbatim>\<open>in\<close>\<close>

definition digit_char :: "nat \<Rightarrow> char" where
  "digit_char d =
     (if d = 0 then CHR ''0'' else if d = 1 then CHR ''1'' else if d = 2 then CHR ''2''
      else if d = 3 then CHR ''3'' else if d = 4 then CHR ''4'' else if d = 5 then CHR ''5''
      else if d = 6 then CHR ''6'' else if d = 7 then CHR ''7'' else if d = 8 then CHR ''8''
      else CHR ''9'')"

fun str_nat :: "nat \<Rightarrow> string" where
  "str_nat n = (if n < 10 then [digit_char n] else str_nat (n div 10) @ [digit_char (n mod 10)])"

declare str_nat.simps [simp del]

definition str_int :: "int \<Rightarrow> string" where
  "str_int i = (if i < 0 then CHR ''-'' # str_nat (nat (- i)) else str_nat (nat i))"

fun py_str :: "scalar \<Rightarrow> string" where
  "py_str SNone = ''None''"
| "py_str (SBool b) = (if b then ''True'' else ''False'')"
| "py_str (SInt i) = str_int i"
| "py_str (SStr s) = s"
| "py_str (SDatetime s) = s"

text \<open>Python's truth value of a scalar, as an \<^verbatim>\<open>if\<close> tests it.\<close>

fun truthy :: "scalar \<Rightarrow> bool" where
  "truthy SNone = False"
| "truthy (SBool b) = b"
| "truthy (SInt i) = (i \<noteq> 0)"
| "truthy (SStr s) = (s \<noteq> [])"
| "truthy (SDatetime s) = True"

text \<open>\<^verbatim>\<open>a in b\<close> on strings: \<open>a\<close> occurs in \<open>b\<close> as a contiguous piece.\<close>

fun str_in :: "string \<Rightarrow> string \<Rightarrow> bool" where
  "str_in a [] = (a = [])"
| "str_in a (c # b) = (prefix a (c # b) \<or> str_in a b)"

text \<open>\<^verbatim>\<open>sep.join(parts)\<close>.\<close>

definition join :: "string \<Rightarrow> string list \<Rightarrow> string" where
  "join sep parts = (case parts of [] \<Rightarrow> [] | p # ps \<Rightarrow> foldl (\<lambda>acc x. acc @ sep @ x) p ps)"

subsection \<open>\<^verbatim>\<open>scrub\<close>\<close>

text \<open>
  \<^verbatim>\<open>str.isalnum\<close> of one character, for the code points 0 to 255: the ASCII digits and
  letters, and the Latin-1 letters, superscript digits and fractions.
\<close>

definition isalnum :: "char \<Rightarrow> bool" where
  "isalnum k =
     (let c = (of_char k :: nat) in
        (48 \<le> c \<and> c \<le> 57) \<or> (65 \<le> c \<and> c \<le> 90) \<or> (97 \<le> c \<and> c \<le> 122) \<or>
        c = 170 \<or> c = 178 \<or> c = 179 \<or> c = 181 \<or> c = 185 \<or> c = 186 \<or>
        (188 \<le> c \<and> c \<le> 190) \<or> (192 \<le> c \<and> c \<le> 214) \<or>
        (216 \<le> c \<and> c \<le> 246) \<or> (248 \<le> c \<and> c \<le> 255))"

text \<open>\<^verbatim>\<open>return "".join(k for k in input_string if k.isalnum())\<close>\<close>

definition scrub :: "string \<Rightarrow> string" where
  "scrub input_string = join [] [[k]. k \<leftarrow> input_string, isalnum k]"

subsection \<open>\<^verbatim>\<open>str.format\<close> and the address formatter\<close>

text \<open>
  \<^verbatim>\<open>template.format(*args)\<close> for templates whose fields are all the automatic \<^verbatim>\<open>{}\<close>: each
  field takes the next argument, \<^verbatim>\<open>{{\<close> and \<^verbatim>\<open>}}\<close> are the escaped braces, a field with no
  argument left raises IndexError, a brace on its own raises ValueError, and arguments
  left over are ignored.
\<close>

fun py_format :: "string \<Rightarrow> string list \<Rightarrow> py_error + string" where
  "py_format [] args = Inr []"
| "py_format [c] args = (if c = CHR ''{'' \<or> c = CHR ''}'' then Inl ValueError else Inr [c])"
| "py_format (c # d # rest) args =
     (if c = CHR ''{'' \<and> d = CHR ''}'' then
        (case args of
           [] \<Rightarrow> Inl IndexError
         | a # args' \<Rightarrow>
             (case py_format rest args' of Inl e \<Rightarrow> Inl e | Inr s \<Rightarrow> Inr (a @ s)))
      else if (c = CHR ''{'' \<and> d = CHR ''{'') \<or> (c = CHR ''}'' \<and> d = CHR ''}'') then
        (case py_format rest args of Inl e \<Rightarrow> Inl e | Inr s \<Rightarrow> Inr (c # s))
      else if c = CHR ''{'' \<or> c = CHR ''}'' then Inl ValueError
      else (case py_format (d # rest) args of Inl e \<Rightarrow> Inl e | Inr s \<Rightarrow> Inr (c # s)))"

definition format_store_address ::
  "string \<Rightarrow> string \<Rightarrow> string \<Rightarrow> string \<Rightarrow> string \<Rightarrow> string \<Rightarrow> py_error + string" where
  "format_store_address street_address external_number_address suburb_address
       zip_postal_code_address city_address country_address =
     py_format ''{} no. {}, col. {}, Cp. {}, {}, {}''
       [street_address, external_number_address, suburb_address, zip_postal_code_address,
        city_address, country_address]"

subsection \<open>\<^verbatim>\<open>json.dumps\<close>\<close>

text \<open>
  \<^verbatim>\<open>json.dumps\<close> with its default settings: \<^verbatim>\<open>", "\<close> and \<^verbatim>\<open>": "\<close> as separators, every
  character outside the printable ASCII range escaped, and TypeError for a value it cannot
  serialise, which among the values here is a datetime.
\<close>

definition hex_char :: "nat \<Rightarrow> char" where
  "hex_char d =
     (if d < 10 then digit_char d else if d = 10 then CHR ''a'' else if d = 11 then CHR ''b''
      else if d = 12 then CHR ''c'' else if d = 13 then CHR ''d'' else if d = 14 then CHR ''e''
      else CHR ''f'')"

definition json_escape :: "char \<Rightarrow> string" where
  "json_escape k =
     (let c = (of_char k :: nat) in
        if c = 34 then [CHR 0x5C, CHR 0x22]
        else if c = 92 then [CHR 0x5C, CHR 0x5C]
        else if c = 10 then [CHR 0x5C, CHR ''n'']
        else if c = 13 then [CHR 0x5C, CHR ''r'']
        else if c = 9 then [CHR 0x5C, CHR ''t'']
        else if c = 8 then [CHR 0x5C, CHR ''b'']
        else if c = 12 then [CHR 0x5C, CHR ''f'']
        else if c < 32 \<or> 126 < c then
          [CHR 0x5C, CHR ''u'', CHR ''0'', CHR ''0'', hex_char (c div 16), hex_char (c mod 16)]
        else [k])"

definition json_string :: "string \<Rightarrow> string" where
  "json_string s = [CHR 0x22] @ concat (map json_escape s) @ [CHR 0x22]"

fun json_scalar :: "scalar \<Rightarrow> string" where
  "json_scalar SNone = ''null''"
| "json_scalar (SBool b) = (if b then ''true'' else ''false'')"
| "json_scalar (SInt i) = str_int i"
| "json_scalar (SStr s) = json_string s"
| "json_scalar (SDatetime s) = []"

fun serializable :: "pyval \<Rightarrow> bool"
  and serializable_items :: "pyval list \<Rightarrow> bool"
  and serializable_members :: "(string \<times> pyval) list \<Rightarrow> bool" where
  "serializable (Scalar (SDatetime s)) = False"
| "serializable (Scalar v) = True"
| "serializable (PList vs) = serializable_items vs"
| "serializable (PDict kvs) = serializable_members kvs"
| "serializable_items [] = True"
| "serializable_items (v # vs) = (serializable v \<and> serializable_items vs)"
| "serializable_members [] = True"
| "serializable_members ((k, v) # kvs) = (serializable v \<and> serializable_members kvs)"

fun json_text :: "pyval \<Rightarrow> string"
  and json_items :: "pyval list \<Rightarrow> string"
  and json_members :: "(string \<times> pyval) list \<Rightarrow> string" where
  "json_text (Scalar v) = json_scalar v"
| "json_text (PList vs) = ''['' @ json_items vs @ '']''"
| "json_text (PDict kvs) = ''{'' @ json_members kvs @ ''}''"
| "json_items [] = []"
| "json_items (v # vs) = json_text v @ (if vs = [] then [] else '', '' @ json_items vs)"
| "json_members [] = []"
| "json_members ((k, v) # kvs) =
     json_string k @ '': '' @ json_text v @ (if kvs = [] then [] else '', '' @ json_members kvs)"

definition json_dumps :: "pyval \<Rightarrow> py_error + string" where
  "json_dumps v = (if serializable v then Inr (json_text v) else Inl TypeError)"

section \<open>The driver, the trace of its calls, and programs\<close>

text \<open>
  \<^verbatim>\<open>session_to_db\<close> calls \<^verbatim>\<open>psycopg2.connect\<close> with no \<^verbatim>\<open>cursor_factory\<close> and every cursor
  is \<^verbatim>\<open>conn.cursor()\<close>, the driver's default cursor: a fetched row is a tuple of its cells.
  \<^verbatim>\<open>fetchall()\<close> gives a list of rows; the module tests both the list and each row against
  \<^verbatim>\<open>None\<close>, so both may be absent here.
\<close>

type_synonym row = "scalar list"

text \<open>
  \<^verbatim>\<open>row[x]\<close> on a tuple: a string subscript raises TypeError (tuple indices must be
  integers), an integer counts from the end when negative and raises IndexError out of
  range.
\<close>

datatype subscript = Index int | Key string

fun tuple_getitem :: "row \<Rightarrow> subscript \<Rightarrow> py_error + scalar" where
  "tuple_getitem r (Key k) = Inl TypeError"
| "tuple_getitem r (Index i) =
     (let n = int (length r); j = (if i < 0 then n + i else i)
      in if 0 \<le> j \<and> j < n then Inr (r ! nat j) else Inl IndexError)"

type_synonym result_set = "row option list option"

text \<open>
  What the module does to the database is the sequence of its driver calls. Connections
  are numbered in the order \<^verbatim>\<open>psycopg2.connect\<close> opened them; a cursor is named by its
  connection.
\<close>

datatype event =
    Connect nat
  | Cursor nat
  | Execute nat string "scalar list"
  | Commit nat
  | Rollback nat
  | CloseCursor nat
  | Close nat

text \<open>
  The surroundings of the module: the settings \<^verbatim>\<open>get_config_constant_file()\<close> reads, the
  database server and \<^verbatim>\<open>datetime.strptime\<close>. The server answers a call from everything that
  was called before it: \<open>connect_error\<close> and \<open>commit_error\<close> say whether
  \<^verbatim>\<open>psycopg2.connect\<close> and \<^verbatim>\<open>conn.commit()\<close> raise, \<open>execute_result\<close> whether a statement
  that reached the server is rejected and, if not, what the cursor's \<^verbatim>\<open>fetchall()\<close> holds.
  Creating and closing a cursor, fetching, rolling back and closing a connection do not
  raise. \<open>Execute\<close> in a trace is a statement sent to the server.
\<close>

record env =
  db_host :: string
  db_name :: string
  users_auth :: string
  connect_error :: "event list \<Rightarrow> string option"
  execute_result :: "event list \<Rightarrow> nat \<Rightarrow> string \<Rightarrow> scalar list \<Rightarrow> string + result_set"
  commit_error :: "event list \<Rightarrow> nat \<Rightarrow> string option"
  strptime :: "string \<Rightarrow> string \<Rightarrow> string option"

text \<open>A program takes the trace so far and returns its result or exception, and the trace.\<close>

type_synonym 'a prog = "event list \<Rightarrow> (py_error + 'a) \<times> event list"

definition ret :: "'a \<Rightarrow> 'a prog" where
  "ret x t = (Inr x, t)"

definition raise :: "py_error \<Rightarrow> 'a prog" where
  "raise e t = (Inl e, t)"

definition lift :: "py_error + 'a \<Rightarrow> 'a prog" where
  "lift r t = (r, t)"

definition bind :: "'a prog \<Rightarrow> ('a \<Rightarrow> 'b prog) \<Rightarrow> 'b prog" where
  "bind m f t = (case m t of (Inl e, t') \<Rightarrow> (Inl e, t') | (Inr x, t') \<Rightarrow> f x t')"

definition emit :: "event \<Rightarrow> unit prog" where
  "emit e t = (Inr (), t @ [e])"

text \<open>\<^verbatim>\<open>try: body finally: cleanup\<close>: the cleanup runs on every exit of the body.\<close>

definition try_finally :: "'a prog \<Rightarrow> unit prog \<Rightarrow> 'a prog" where
  "try_finally body cleanup t =
     (case body t of
        (r, t') \<Rightarrow> (case cleanup t' of (Inl e, t'') \<Rightarrow> (Inl e, t'') | (Inr u, t'') \<Rightarrow> (r, t'')))"

text \<open>\<^verbatim>\<open>try: body except SQLAlchemyError as error: handler\<close>: no other exception is caught.\<close>

definition except_SQLAlchemyError :: "'a prog \<Rightarrow> (string \<Rightarrow> 'a prog) \<Rightarrow> 'a prog" where
  "except_SQLAlchemyError body handler t =
     (case body t of
        (Inl (SQLAlchemyError error), t') \<Rightarrow> handler error t'
      | (r, t') \<Rightarrow> (r, t'))"

subsection \<open>Connections and cursors\<close>

fun opened :: "event list \<Rightarrow> nat" where
  "opened [] = 0"
| "opened (Connect c # t) = Suc (opened t)"
| "opened (e # t) = opened t"

text \<open>
  \<^verbatim>\<open>session_to_db\<close>: \<^verbatim>\<open>init_connect_db()\<close> returns a list of five settings, which is never
  empty, so \<^verbatim>\<open>psycopg2.connect\<close> is always called; its failure becomes a ConnectionError.
\<close>

definition session_to_db :: "env \<Rightarrow> nat prog" where
  "session_to_db env t =
     (case connect_error env t of
        None \<Rightarrow> (Inr (opened t), t @ [Connect (opened t)])
      | Some error \<Rightarrow>
          (Inl (ConnectionError
             ([CHR 0x22] @ db_host env @ [CHR 0x22] @
              '' Can not connect to database, verify data connection to '' @
              [CHR 0x22] @ db_name env @ [CHR 0x22] @ ''.'' @ [CHR 0x0A] @
              ''Original Exception raised: '' @ error)), t))"

text \<open>\<^verbatim>\<open>conn.cursor()\<close>, and \<^verbatim>\<open>create_cursor(conn)\<close>, which wraps it.\<close>

definition conn_cursor :: "nat \<Rightarrow> nat prog" where
  "conn_cursor conn = bind (emit (Cursor conn)) (\<lambda>u. ret conn)"

definition create_cursor :: "nat \<Rightarrow> nat prog" where
  "create_cursor conn = conn_cursor conn"

definition disconnect_from_db :: "nat option \<Rightarrow> unit prog" where
  "disconnect_from_db conn = (case conn of None \<Rightarrow> ret () | Some c \<Rightarrow> emit (Close c))"

definition close_cursor :: "nat option \<Rightarrow> unit prog" where
  "close_cursor cursor = (case cursor of None \<Rightarrow> ret () | Some c \<Rightarrow> emit (CloseCursor c))"

text \<open>
  The driver puts the values of \<^verbatim>\<open>cursor.execute(sql, params)\<close> into the statement before
  it sends anything: each \<^verbatim>\<open>%s\<close> takes the next value, \<^verbatim>\<open>%%\<close> is a percent sign. A \<^verbatim>\<open>%s\<close>
  with no value left raises IndexError, values left over raise TypeError, and any other
  use of \<^verbatim>\<open>%\<close> is refused (the statements of the module use \<^verbatim>\<open>%s\<close> only). The result is
  the exception raised, if any.
\<close>

fun bind_params :: "string \<Rightarrow> scalar list \<Rightarrow> py_error option" where
  "bind_params [] params = (if params = [] then None else Some TypeError)"
| "bind_params [c] params =
     (if c = CHR ''%'' then Some ValueError
      else if params = [] then None else Some TypeError)"
| "bind_params (c # d # sql) params =
     (if c = CHR ''%'' \<and> d = CHR ''%'' then bind_params sql params
      else if c = CHR ''%'' \<and> d = CHR ''s'' then
        (case params of [] \<Rightarrow> Some IndexError | p # ps \<Rightarrow> bind_params sql ps)
      else if c = CHR ''%'' then Some ValueError
      else bind_params (d # sql) params)"

text \<open>
  \<^verbatim>\<open>cursor.execute(sql)\<close> and \<^verbatim>\<open>cursor.execute(sql, params)\<close>. The module never passes an
  empty tuple, so an empty list of values stands for the call without values, in which
  the driver sends the statement as it is. A statement whose values do not fit is not
  sent; a statement the server rejects raises the driver's error.
\<close>

definition execute :: "env \<Rightarrow> nat \<Rightarrow> string \<Rightarrow> scalar list \<Rightarrow> result_set prog" where
  "execute env cursor sql params t =
     (case (if params = [] then None else bind_params sql params) of
        Some e \<Rightarrow> (Inl e, t)
      | None \<Rightarrow>
          (case execute_result env t cursor sql params of
             Inl error \<Rightarrow> (Inl (Psycopg2Error error), t @ [Execute cursor sql params])
           | Inr result \<Rightarrow> (Inr result, t @ [Execute cursor sql params])))"

definition commit :: "env \<Rightarrow> nat \<Rightarrow> unit prog" where
  "commit env conn t =
     (case commit_error env t conn of
        Some error \<Rightarrow> (Inl (Psycopg2Error error), t @ [Commit conn])
      | None \<Rightarrow> (Inr (), t @ [Commit conn]))"

definition rollback :: "nat \<Rightarrow> unit prog" where
  "rollback conn = emit (Rollback conn)"

text \<open>\<^verbatim>\<open>cursor.fetchone()\<close>: the first row of the result, or \<^verbatim>\<open>None\<close>.\<close>

definition fetchone :: "result_set \<Rightarrow> row option" where
  "fetchone result = (case result of Some (r # rs) \<Rightarrow> r | _ \<Rightarrow> None)"

text \<open>
  The shape every transaction of the module has:
  \<^verbatim>\<open>conn = None; try: conn = session_to_db(); ... finally: disconnect_from_db(conn)\<close>.
  When \<^verbatim>\<open>session_to_db\<close> raises, \<^verbatim>\<open>conn\<close> is still \<^verbatim>\<open>None\<close> in the \<^verbatim>\<open>finally\<close> block.
\<close>

definition try_with_session :: "env \<Rightarrow> (nat \<Rightarrow> 'a prog) \<Rightarrow> 'a prog" where
  "try_with_session env body t =
     (case session_to_db env t of
        (Inl e, t') \<Rightarrow> try_finally (raise e) (disconnect_from_db None) t'
      | (Inr conn, t') \<Rightarrow> try_finally (body conn) (disconnect_from_db (Some conn)) t')"

text \<open>
  The handler of the table transactions:
  \<^verbatim>\<open>conn.rollback(); raise SQLAlchemyError("A SQL Exception {} occurred ... on table {}.")\<close>.
\<close>

definition transaction_message :: "string \<Rightarrow> string \<Rightarrow> string" where
  "transaction_message table_name error =
     ''A SQL Exception '' @ error @
     '' occurred while transacting with the database on table '' @ table_name @ ''.''"

definition rollback_and_raise :: "nat \<Rightarrow> string \<Rightarrow> string \<Rightarrow> 'a prog" where
  "rollback_and_raise conn table_name error =
     bind (rollback conn) (\<lambda>u. raise (SQLAlchemyError (transaction_message table_name error)))"

section \<open>The transactions\<close>

subsection \<open>\<^verbatim>\<open>get_datenow_from_db\<close> and \<^verbatim>\<open>get_nextval_economic_number_van\<close>\<close>

definition get_datenow_from_db :: "env \<Rightarrow> result_set prog" where
  "get_datenow_from_db env =
     try_with_session env (\<lambda>conn.
       except_SQLAlchemyError
         (bind (create_cursor conn) (\<lambda>cursor.
          bind (execute env cursor ''SELECT now()'' []) (\<lambda>result.
          bind (emit (CloseCursor cursor)) (\<lambda>u.
          ret result))))
         (\<lambda>error.
            bind (rollback conn) (\<lambda>u.
            raise (SQLAlchemyError
              (''A SQL Exception '' @ error @
               '' occurred while transacting with the database.'')))))"

definition sql_nextval_seq :: string where
  "sql_nextval_seq = ''SELECT nextval('' @ [CHR 0x27] @ ''urbvan.eco_num_van'' @ [CHR 0x27] @ '')''"

text \<open>
  The connection is the caller's. A row, a tuple, is true when it has a cell; on a false
  result the function falls off its end and returns \<^verbatim>\<open>None\<close>.
\<close>

definition get_nextval_economic_number_van :: "env \<Rightarrow> nat \<Rightarrow> row option prog" where
  "get_nextval_economic_number_van env conn =
     except_SQLAlchemyError
       (bind (create_cursor conn) (\<lambda>cursor.
        bind (execute env cursor sql_nextval_seq []) (\<lambda>result.
        bind (close_cursor (Some cursor)) (\<lambda>u.
        (case fetchone result of
           None \<Rightarrow> ret None
         | Some economic_number_nextval \<Rightarrow>
             if economic_number_nextval \<noteq> [] then ret (Some economic_number_nextval)
             else ret None)))))
       (\<lambda>error.
          bind (rollback conn) (\<lambda>u.
          raise (SQLAlchemyError
            (''A SQL Exception '' @ error @
             '' occurred while transacting with the database.''))))"

subsection \<open>The existence checks\<close>

definition sql_exists_data_row ::
  "string \<Rightarrow> string \<Rightarrow> string \<Rightarrow> scalar \<Rightarrow> string \<Rightarrow> scalar \<Rightarrow> string" where
  "sql_exists_data_row table_name column_name column_filter1 value1 column_filter2 value2 =
     ''SELECT '' @ column_name @ '' FROM '' @ table_name @
     '' WHERE '' @ column_filter1 @ '' = '' @ py_str value1 @
     '' AND '' @ column_filter2 @ '' = '' @ [CHR 0x27] @ py_str value2 @ [CHR 0x27]"

text \<open>
  The loop \<^verbatim>\<open>for r_e in row_exists\<close> of both checks: every row that is not \<^verbatim>\<open>None\<close> assigns
  \<^verbatim>\<open>row_data = r_e[column_name]\<close>, and every turn closes the cursor. There is no \<^verbatim>\<open>break\<close>.
  The subscript is the column's name, a string.
\<close>

fun each_row :: "string \<Rightarrow> nat \<Rightarrow> row option list \<Rightarrow> scalar \<Rightarrow> scalar prog" where
  "each_row column_name cursor [] row_data = ret row_data"
| "each_row column_name cursor (None # row_exists) row_data =
     bind (close_cursor (Some cursor)) (\<lambda>u. each_row column_name cursor row_exists row_data)"
| "each_row column_name cursor (Some r_e # row_exists) row_data =
     bind (lift (tuple_getitem r_e (Key column_name))) (\<lambda>v.
     bind (close_cursor (Some cursor)) (\<lambda>u. each_row column_name cursor row_exists v))"

definition exists_data_row ::
  "env \<Rightarrow> string \<Rightarrow> string \<Rightarrow> string \<Rightarrow> scalar \<Rightarrow> string \<Rightarrow> scalar \<Rightarrow> scalar prog" where
  "exists_data_row env table_name column_name column_filter1 value1 column_filter2 value2 =
     try_with_session env (\<lambda>conn.
       except_SQLAlchemyError
         (bind (conn_cursor conn) (\<lambda>cursor.
          bind (execute env cursor
                  (sql_exists_data_row table_name column_name column_filter1 value1
                     column_filter2 value2) []) (\<lambda>row_exists.
          (case row_exists of
             None \<Rightarrow> raise TypeError
           | Some rows \<Rightarrow> each_row column_name cursor rows SNone))))
         (rollback_and_raise conn table_name))"

text \<open>\<^verbatim>\<open>"'" + value + "'"\<close>: the concatenation raises TypeError unless the value is a string.\<close>

definition quoted :: "scalar \<Rightarrow> py_error + string" where
  "quoted v = (case v of SStr s \<Rightarrow> Inr ([CHR 0x27] @ s @ [CHR 0x27]) | _ \<Rightarrow> Inl TypeError)"

definition sql_validate_transaction ::
  "string \<Rightarrow> string \<Rightarrow> string \<Rightarrow> scalar \<Rightarrow> string \<Rightarrow> string \<Rightarrow> string \<Rightarrow> string \<Rightarrow> string" where
  "sql_validate_transaction table_name column_name column_filter1 value1 column_filter2 q2
       column_filter3 q3 =
     ''SELECT '' @ column_name @ '' FROM '' @ table_name @
     '' WHERE '' @ column_filter1 @ '' = '' @ py_str value1 @
     '' AND '' @ column_filter2 @ '' = '' @ q2 @
     '' AND '' @ column_filter3 @ '' = '' @ q3"

definition validate_transaction ::
  "env \<Rightarrow> string \<Rightarrow> string \<Rightarrow> string \<Rightarrow> scalar \<Rightarrow> string \<Rightarrow> scalar \<Rightarrow> string \<Rightarrow> scalar
     \<Rightarrow> scalar prog" where
  "validate_transaction env table_name column_name column_filter1 value1 column_filter2 value2
       column_filter3 value3 =
     try_with_session env (\<lambda>conn.
       except_SQLAlchemyError
         (bind (conn_cursor conn) (\<lambda>cursor.
          bind (lift (quoted value2)) (\<lambda>q2.
          bind (lift (quoted value3)) (\<lambda>q3.
          bind (execute env cursor
                  (sql_validate_transaction table_name column_name column_filter1 value1
                     column_filter2 q2 column_filter3 q3) []) (\<lambda>row_exists.
          (case row_exists of
             None \<Rightarrow> raise TypeError
           | Some rows \<Rightarrow> each_row column_name cursor rows SNone))))))
         (rollback_and_raise conn table_name))"

subsection \<open>The Van upsert\<close>

text \<open>
  What \<^verbatim>\<open>self.__tablename__\<close>, \<^verbatim>\<open>self.uuid_van\<close> and \<^verbatim>\<open>self.plates_van\<close> evaluate to on the
  \<^verbatim>\<open>StoreModelDb\<close> object the method is called on.
\<close>

record store_model_db =
  tablename :: string
  uuid_van_column :: string
  plates_van_column :: string

text \<open>
  \<^verbatim>\<open>manage_van_vehicle_data\<close> calls \<^verbatim>\<open>update_store_data\<close> and \<^verbatim>\<open>insert_new_store\<close> with six
  positional arguments each. Both are declared with two parameters
  (\<^verbatim>\<open>def update_store_data(table_name, data_store)\<close>,
  \<^verbatim>\<open>def insert_new_store(table_name, store_obj: StoreModel)\<close>), so either call raises
  TypeError before the body of the function runs: the first branch below is the call of
  \<^verbatim>\<open>update_store_data\<close>, the second the call of \<^verbatim>\<open>insert_new_store\<close>.
\<close>

definition manage_van_vehicle_data ::
  "env \<Rightarrow> store_model_db \<Rightarrow> scalar \<Rightarrow> scalar \<Rightarrow> scalar \<Rightarrow> scalar \<Rightarrow> scalar \<Rightarrow> string prog" where
  "manage_van_vehicle_data env self uuid_van plates_van economic_number_van seats_van
       status_van =
     bind (exists_data_row env (tablename self) (uuid_van_column self) (uuid_van_column self)
             uuid_van (plates_van_column self) plates_van) (\<lambda>found.
       if truthy found then raise TypeError
       else raise TypeError)"

subsection \<open>The Store transactions\<close>

text \<open>
  Modelled from the spec: the class \<^verbatim>\<open>StoreModel\<close> (\<^verbatim>\<open>model/StoreModel.py\<close>) is not among the
  sources. The record has one field for each getter \<^verbatim>\<open>insert_new_store\<close> calls, named as the
  getter and typed as the
  spec's data model of a Store has them: a numeric id and minimum stock, strings otherwise.
\<close>

record store_model =
  get_id_store :: int
  get_store_code :: string
  get_store_name :: string
  get_external_number :: string
  get_street_address :: string
  get_suburb_address :: string
  get_city_address :: string
  get_country_address :: string
  get_zip_postal_address :: string
  get_minimum_stock :: int

text \<open>A fetched result as a value of a payload: a list of rows, each a list of its cells.\<close>

definition rows_value :: "result_set \<Rightarrow> pyval" where
  "rows_value result =
     (case result of
        None \<Rightarrow> Scalar SNone
      | Some rows \<Rightarrow>
          PList (map (\<lambda>r. case r of None \<Rightarrow> Scalar SNone
                                 | Some cells \<Rightarrow> PList (map Scalar cells))
                   rows))"

text \<open>
  The template has no \<^verbatim>\<open>{}\<close> field, so \<^verbatim>\<open>.format(table_name)\<close> leaves it as it is: twelve
  columns and twelve placeholders. \<^verbatim>\<open>data_insert\<close> holds ten values, so the driver raises
  IndexError when it binds them.
\<close>

definition sql_store_insert :: string where
  "sql_store_insert =
     ''INSERT INTO cargamos.store_api '' @
     ''(id_store, '' @ ''store_name, '' @ ''store_code, '' @ ''store_street_address, '' @
     ''store_external_number, '' @ ''store_suburb_address, '' @ ''store_city_address, '' @
     ''store_country_address, '' @ ''store_zippostal_code, '' @ ''store_min_inventory, '' @
     ''creation_date, '' @
     ''last_update_date) VALUES(%s, %s, %s, %s, %s, %s, %s, %s, %s, %s, %s, %s)''"

text \<open>The tuple \<^verbatim>\<open>data_insert\<close>, in the order the function builds it.\<close>

definition data_insert :: "store_model \<Rightarrow> scalar list" where
  "data_insert store_obj =
     [SInt (get_id_store store_obj), SStr (get_store_code store_obj),
      SStr (get_store_name store_obj), SStr (get_external_number store_obj),
      SStr (get_street_address store_obj), SStr (get_suburb_address store_obj),
      SStr (get_city_address store_obj), SStr (get_country_address store_obj),
      SStr (get_zip_postal_address store_obj), SInt (get_minimum_stock store_obj)]"

definition store_payload ::
  "int \<Rightarrow> scalar \<Rightarrow> scalar \<Rightarrow> string \<Rightarrow> scalar \<Rightarrow> string \<Rightarrow> result_set \<Rightarrow> string \<Rightarrow> pyval" where
  "store_payload store_id code name address_store stock date_key date message =
     PDict [(''IdStore'', Scalar (SInt store_id)),
            (''CodeStore'', Scalar code),
            (''NameStore'', Scalar name),
            (''AddressStore'', Scalar (SStr address_store)),
            (''MinimumStock'', Scalar stock),
            (date_key, rows_value date),
            (''Message'', Scalar (SStr message))]"

definition insert_new_store :: "env \<Rightarrow> string \<Rightarrow> store_model \<Rightarrow> string prog" where
  "insert_new_store env table_name store_obj =
     bind
       (try_with_session env (\<lambda>conn.
          except_SQLAlchemyError
            (bind (conn_cursor conn) (\<lambda>cursor.
             bind (get_datenow_from_db env) (\<lambda>created_at.
             bind (get_datenow_from_db env) (\<lambda>last_update_date.
             bind (execute env cursor sql_store_insert (data_insert store_obj)) (\<lambda>r.
             bind (commit env conn) (\<lambda>u.
             bind (close_cursor (Some cursor)) (\<lambda>u.
             bind (validate_transaction env table_name ''id_store''
                     ''id_store'' (SInt (get_id_store store_obj))
                     ''store_code'' (SStr (get_store_code store_obj))
                     ''store_name'' (SStr (get_store_name store_obj))) (\<lambda>row_exists.
             bind (lift (format_store_address (get_street_address store_obj)
                     (get_external_number store_obj) (get_suburb_address store_obj)
                     (get_zip_postal_address store_obj) (get_city_address store_obj)
                     (get_country_address store_obj))) (\<lambda>address_store.
             if \<not> str_in (str_int (get_id_store store_obj)) (py_str row_exists) then
               ret (store_payload (get_id_store store_obj) (SStr (get_store_code store_obj))
                      (SStr (get_store_name store_obj)) address_store
                      (SInt (get_minimum_stock store_obj)) ''CreationDate'' created_at
                      ''Store Inserted Successful'')
             else
               ret (store_payload (get_id_store store_obj) (SStr (get_store_code store_obj))
                      (SStr (get_store_name store_obj)) address_store
                      (SInt (get_minimum_stock store_obj)) ''CreationDate'' created_at
                      ''Store already Inserted''))))))))))
            (rollback_and_raise conn table_name)))
       (\<lambda>store_data_inserted. lift (json_dumps store_data_inserted))"

text \<open>
  \<^verbatim>\<open>update_store_data\<close> takes a dictionary. \<^verbatim>\<open>data_store.get(key)\<close> gives \<^verbatim>\<open>None\<close> for a
  missing key; \<^verbatim>\<open>data_store("street_address")\<close> calls the dictionary, which raises TypeError.
\<close>

definition dict_get :: "(string \<times> scalar) list \<Rightarrow> string \<Rightarrow> scalar" where
  "dict_get d key = (case map_of d key of None \<Rightarrow> SNone | Some v \<Rightarrow> v)"

definition dict_call :: "(string \<times> scalar) list \<Rightarrow> string \<Rightarrow> scalar prog" where
  "dict_call d argument = raise TypeError"

definition sql_update_store :: "string \<Rightarrow> string" where
  "sql_update_store table_name =
     ''UPDATE '' @ table_name @ '' '' @
     ''SET store_name=%s, '' @ ''store_street_address=%s, '' @ ''store_external_number=%s, '' @
     ''store_suburb_address=%s, '' @ ''store_city_address=%s, '' @
     ''store_country_address=%s, '' @ ''store_zippostal_code=%s, '' @
     ''store_min_inventory=%s, '' @ ''last_update_date=%s '' @
     ''WHERE id_store=%s AND store_code=%s''"

text \<open>
  In the branch for a row that is not found, the argument of \<^verbatim>\<open>logger.error\<close> reads
  \<^verbatim>\<open>status_van\<close>, a name the function does not define: NameError, before the
  \<^verbatim>\<open>raise SQLAlchemyError\<close> that follows it.
\<close>

definition update_store_data :: "env \<Rightarrow> string \<Rightarrow> (string \<times> scalar) list \<Rightarrow> string prog" where
  "update_store_data env table_name data_store =
     bind
       (try_with_session env (\<lambda>conn.
          except_SQLAlchemyError
            (bind (conn_cursor conn) (\<lambda>cursor.
             bind (get_datenow_from_db env) (\<lambda>last_update_date.
             bind (ret (dict_get data_store ''store_id'')) (\<lambda>store_id.
             bind (ret (dict_get data_store ''store_code'')) (\<lambda>store_code.
             bind (ret (dict_get data_store ''store_name'')) (\<lambda>store_name.
             bind (dict_call data_store ''street_address'') (\<lambda>street_address.
             bind (dict_call data_store ''external_number_address'') (\<lambda>external_number_address.
             bind (ret (dict_get data_store ''suburb_address'')) (\<lambda>suburb_address.
             bind (ret (dict_get data_store ''city_address'')) (\<lambda>city_address.
             bind (ret (dict_get data_store ''country_address'')) (\<lambda>country_address.
             bind (ret (dict_get data_store ''zip_postal_code_address'')) (\<lambda>zip_postal_code_address.
             bind (ret (dict_get data_store ''minimum_inventory'')) (\<lambda>minimum_stock.
             bind (execute env cursor (sql_update_store table_name)
                     [store_name, street_address, external_number_address, suburb_address,
                      city_address, country_address, zip_postal_code_address,
                      minimum_stock]) (\<lambda>r.
             bind (lift (format_store_address (py_str street_address)
                     (py_str external_number_address) (py_str suburb_address)
                     (py_str zip_postal_code_address) (py_str city_address)
                     (py_str country_address))) (\<lambda>address_store.
             bind (commit env conn) (\<lambda>u.
             bind (close_cursor (Some cursor)) (\<lambda>u.
             bind (validate_transaction env table_name ''id_store''
                     ''id_store'' store_id ''store_code'' store_code
                     ''store_name'' store_name) (\<lambda>row_exists.
             if str_in (py_str store_id) (py_str row_exists) then
               ret (PDict [(''IdStore'', Scalar store_id),
                           (''CodeStore'', Scalar store_code),
                           (''NameStore'', Scalar store_name),
                           (''AddressStore'', Scalar (SStr address_store)),
                           (''MinimumStock'', Scalar minimum_stock),
                           (''LastUpdateDate'', rows_value last_update_date),
                           (''Message'', Scalar (SStr ''Store Updated Successful''))])
             else raise NameError))))))))))))))))))
            (rollback_and_raise conn table_name)))
       (\<lambda>store_data_updated. lift (json_dumps store_data_updated))"

text \<open>
  \<^verbatim>\<open>delete_store_data\<close>. The id is numeric: the existence check writes it into its statement
  without quotes.
\<close>

definition sql_delete_van :: "string \<Rightarrow> string" where
  "sql_delete_van table_name =
     ''DELETE FROM '' @ table_name @ '' WHERE id_store=%s AND store_code=%s''"

definition delete_payload :: "int \<Rightarrow> string \<Rightarrow> string \<Rightarrow> pyval" where
  "delete_payload store_id store_code message =
     PDict [(''IdStore'', Scalar (SInt store_id)),
            (''CodeStore'', Scalar (SStr store_code)),
            (''Message'', Scalar (SStr message))]"

definition not_stored_message :: "string \<Rightarrow> string \<Rightarrow> string" where
  "not_stored_message what table_name =
     ''Can'' @ [CHR 0x27] @ ''t read '' @ [CHR 0x22] @ what @ [CHR 0x22] @
     '' because it'' @ [CHR 0x27] @ ''s not stored in table '' @ [CHR 0x22] @ table_name @
     ''. SQL Exception'' @ [CHR 0x22]"

definition delete_store_data :: "env \<Rightarrow> string \<Rightarrow> int \<Rightarrow> string \<Rightarrow> string prog" where
  "delete_store_data env table_name store_id store_code =
     bind
       (try_with_session env (\<lambda>conn.
          except_SQLAlchemyError
            (bind (conn_cursor conn) (\<lambda>cursor.
             bind (execute env cursor (sql_delete_van table_name)
                     [SInt store_id, SStr store_code]) (\<lambda>r.
             bind (commit env conn) (\<lambda>u.
             bind (close_cursor (Some cursor)) (\<lambda>u.
             bind (ret (delete_payload store_id store_code ''Store Deleted Successful''))
               (\<lambda>store_data_deleted.
             bind (exists_data_row env table_name ''id_store''
                     ''id_store'' (SInt store_id) ''store_code'' (SStr store_code))
               (\<lambda>row_exists.
             if str_in (str_int store_id) (py_str row_exists) then
               ret (delete_payload store_id store_code ''Store not deleted'')
             else
               raise (ItemNotStored (not_stored_message (str_int store_id) table_name)))))))))
            (rollback_and_raise conn table_name)))
       (\<lambda>store_data_deleted. lift (json_dumps store_data_deleted))"

subsection \<open>Reading vans\<close>

definition sql_van_by :: "string \<Rightarrow> string \<Rightarrow> string" where
  "sql_van_by table_name filter_column =
     '' SELECT uuid_van, '' @ ''        plates_van, '' @ ''        economic_number_van, '' @
     ''        seats_van, '' @ ''        created_at, '' @ ''        status_van, '' @
     ''        last_update_date '' @ '' FROM '' @ table_name @ '' '' @
     '' WHERE '' @ filter_column @ '' = %s''"

text \<open>\<^verbatim>\<open>van_data['uuid_van']\<close> and the like: the row subscripted by a column's name.\<close>

definition getitem :: "row \<Rightarrow> string \<Rightarrow> scalar prog" where
  "getitem r key = lift (tuple_getitem r (Key key))"

text \<open>\<^verbatim>\<open>datetime.strptime(str(v), "%Y-%m-%d %H:%M:%S")\<close>: a datetime, or ValueError.\<close>

definition parse_datetime :: "env \<Rightarrow> scalar \<Rightarrow> scalar prog" where
  "parse_datetime env v =
     (case strptime env (py_str v) ''%Y-%m-%d %H:%M:%S'' of
        None \<Rightarrow> raise ValueError
      | Some d \<Rightarrow> ret (SDatetime d))"

text \<open>
  The loop \<^verbatim>\<open>for van_data in result\<close> of both readers; \<open>acc\<close> is the list built so far. A
  row that is \<^verbatim>\<open>None\<close> raises SQLAlchemyError.
\<close>

fun each_van :: "env \<Rightarrow> string \<Rightarrow> row option list \<Rightarrow> pyval list \<Rightarrow> pyval list prog" where
  "each_van env table_name [] acc = ret acc"
| "each_van env table_name (None # result) acc =
     raise (SQLAlchemyError
       (''Can'' @ [CHR 0x27] @ ''t read data because it'' @ [CHR 0x27] @
        ''s not stored in table '' @ table_name @ ''. SQL Exception''))"
| "each_van env table_name (Some van_data # result) acc =
     bind (getitem van_data ''uuid_van'') (\<lambda>uuid_van.
     bind (getitem van_data ''plates_van'') (\<lambda>plates_van.
     bind (getitem van_data ''economic_number_van'') (\<lambda>economic_number.
     bind (getitem van_data ''seats_van'') (\<lambda>seats_van.
     bind (getitem van_data ''created_at'') (\<lambda>created_at.
     bind (parse_datetime env created_at) (\<lambda>fecha_creacion.
     bind (getitem van_data ''status_van'') (\<lambda>status_van.
     bind (getitem van_data ''last_update_date'') (\<lambda>last_update_date.
     bind (parse_datetime env last_update_date) (\<lambda>fecha_actualizacion.
     each_van env table_name result
       (acc @ [PDict [(''VanVehicle'',
                 PDict [(''UUID'', Scalar uuid_van),
                        (''Plate'', Scalar plates_van),
                        (''EconomicNumber'', Scalar economic_number),
                        (''SeatsNumber'', Scalar seats_van),
                        (''Status'', Scalar status_van),
                        (''CreationDate'', Scalar fecha_creacion),
                        (''LastUpdateDate'', Scalar fecha_actualizacion)])]]))))))))))"

definition select_van :: "env \<Rightarrow> string \<Rightarrow> string \<Rightarrow> string \<Rightarrow> string prog" where
  "select_van env table_name filter_column wanted =
     try_with_session env (\<lambda>conn.
       except_SQLAlchemyError
         (bind (conn_cursor conn) (\<lambda>cursor.
          bind (execute env cursor (sql_van_by table_name filter_column) [SStr wanted])
            (\<lambda>result.
          bind (case result of
                  Some rows \<Rightarrow> each_van env table_name rows []
                | None \<Rightarrow> raise (ItemNotStored (not_stored_message wanted table_name)))
            (\<lambda>vans.
          bind (close_cursor (Some cursor)) (\<lambda>u.
          lift (json_dumps (PList vans)))))))
         (rollback_and_raise conn table_name))"

text \<open>
  \<^verbatim>\<open>select_van_by_uuid\<close> and \<^verbatim>\<open>select_van_by_status\<close> are the same text but for the column
  of the \<^verbatim>\<open>WHERE\<close> clause.
\<close>

definition select_van_by_uuid :: "env \<Rightarrow> string \<Rightarrow> string \<Rightarrow> string prog" where
  "select_van_by_uuid env table_name uuid_van = select_van env table_name ''uuid_van'' uuid_van"

definition select_van_by_status :: "env \<Rightarrow> string \<Rightarrow> string \<Rightarrow> string prog" where
  "select_van_by_status env table_name status_van =
     select_van env table_name ''status_van'' status_van"

subsection \<open>User authentication\<close>

definition sql_check :: "string \<Rightarrow> string \<Rightarrow> string" where
  "sql_check table_name user_name =
     ''SELECT EXISTS(SELECT 1 FROM '' @ table_name @ '' WHERE username = '' @
     [CHR 0x27] @ user_name @ [CHR 0x27] @ '' LIMIT 1)''"

text \<open>No \<^verbatim>\<open>try\<close>, and nothing closes the connection or the cursor.\<close>

definition validate_user_exists :: "env \<Rightarrow> string \<Rightarrow> row option prog" where
  "validate_user_exists env user_name =
     bind (session_to_db env) (\<lambda>conn.
     bind (conn_cursor conn) (\<lambda>cursor.
     bind (execute env cursor (sql_check (users_auth env) user_name) []) (\<lambda>result.
     ret (fetchone result))))"

definition sql_update_user :: "string \<Rightarrow> string" where
  "sql_update_user table_name =
     ''UPDATE '' @ table_name @
     '' SET password_hash = %s, last_update_date = NOW() WHERE username = %s''"

definition update_user_password_hashed :: "env \<Rightarrow> string \<Rightarrow> string \<Rightarrow> unit prog" where
  "update_user_password_hashed env user_name password_hash =
     bind (session_to_db env) (\<lambda>conn.
     bind (create_cursor conn) (\<lambda>cursor.
     bind (get_datenow_from_db env) (\<lambda>last_update_date.
     bind (execute env cursor (sql_update_user (users_auth env))
             [SStr password_hash, SStr user_name]) (\<lambda>r.
     bind (commit env conn) (\<lambda>u.
     close_cursor (Some cursor))))))"

definition sql_user_insert :: "string \<Rightarrow> string" where
  "sql_user_insert table_name =
     ''INSERT INTO '' @ table_name @ '' (user_id, username, password, password_hash) '' @
     ''VALUES (%s, %s, %s, %s)''"

definition insert_user_authenticated ::
  "env \<Rightarrow> int \<Rightarrow> string \<Rightarrow> string \<Rightarrow> string \<Rightarrow> unit prog" where
  "insert_user_authenticated env user_id user_name user_password password_hash =
     bind (session_to_db env) (\<lambda>conn.
     bind (create_cursor conn) (\<lambda>cursor.
     bind (get_datenow_from_db env) (\<lambda>last_update_date.
     bind (execute env cursor (sql_user_insert (users_auth env))
             [SInt user_id, SStr user_name, SStr user_password, SStr password_hash]) (\<lambda>r.
     bind (commit env conn) (\<lambda>u.
     close_cursor (Some cursor))))))"

text \<open>
  \<^verbatim>\<open>user_verification[0]\<close>: TypeError when \<^verbatim>\<open>fetchone()\<close> gave \<^verbatim>\<open>None\<close>, IndexError when the
  row has no cell.
\<close>

definition first_cell :: "row option \<Rightarrow> scalar prog" where
  "first_cell r =
     (case r of
        None \<Rightarrow> raise TypeError
      | Some cells \<Rightarrow> lift (tuple_getitem cells (Index 0)))"

definition manage_user_authentication ::
  "env \<Rightarrow> int \<Rightarrow> string \<Rightarrow> string \<Rightarrow> string \<Rightarrow> unit prog" where
  "manage_user_authentication env user_id user_name user_password password_hash =
     except_SQLAlchemyError
       (bind (validate_user_exists env user_name) (\<lambda>user_verification.
        bind (first_cell user_verification) (\<lambda>verified.
        if truthy verified then update_user_password_hashed env user_name password_hash
        else insert_user_authenticated env user_id user_name user_password password_hash)))
       (\<lambda>e. raise (ItemNotStored
          (''Can'' @ [CHR 0x27] @ ''t insert user_id: '' @ [CHR 0x22] @ str_int user_id @
           [CHR 0x22] @ '' with user_name: '' @ user_name @ '' because it'' @ [CHR 0x27] @
           ''s not stored in '' @ [CHR 0x22] @ users_auth env @ [CHR 0x22])))"

section \<open>Runs and example databases\<close>

text \<open>
  What \<^verbatim>\<open>cursor.execute\<close> gives for the statement a transaction executes first, on the
  connection it opens at \<open>t\<close> and right after creating its cursor: the exception raised, or
  the result the cursor holds.
\<close>

definition first_answer ::
  "env \<Rightarrow> event list \<Rightarrow> string \<Rightarrow> scalar list \<Rightarrow> py_error + result_set" where
  "first_answer env t sql params =
     fst (execute env (opened t) sql params (t @ [Connect (opened t), Cursor (opened t)]))"

text \<open>
  A driver call succeeds when it does not raise; a run has no faults when each of its
  calls succeeds at the point it is made.
\<close>

fun succeeds :: "env \<Rightarrow> event list \<Rightarrow> event \<Rightarrow> bool" where
  "succeeds env t (Connect c) = (connect_error env t = None)"
| "succeeds env t (Execute c sql params) =
     (case fst (execute env c sql params t) of Inl e \<Rightarrow> False | Inr result \<Rightarrow> True)"
| "succeeds env t (Commit c) = (commit_error env t c = None)"
| "succeeds env t e = True"

fun no_faults :: "env \<Rightarrow> event list \<Rightarrow> event list \<Rightarrow> bool" where
  "no_faults env t [] = True"
| "no_faults env t (e # es) = (succeeds env t e \<and> no_faults env (t @ [e]) es)"

text \<open>The driver calls of a store deletion up to its existence check.\<close>

definition delete_steps :: "nat \<Rightarrow> string \<Rightarrow> int \<Rightarrow> string \<Rightarrow> event list" where
  "delete_steps c table_name store_id store_code =
     [Connect c, Cursor c,
      Execute c (sql_delete_van table_name) [SInt store_id, SStr store_code],
      Commit c, CloseCursor c]"

text \<open>
  The driver calls of \<^verbatim>\<open>manage_user_authentication\<close> when none of them fails, with the
  statements written out: the lookup on connection \<open>c\<close>, then on connection \<open>c + 1\<close> the
  update or the insert, around the clock query on \<open>c + 2\<close>.
\<close>

definition user_steps ::
  "nat \<Rightarrow> string \<Rightarrow> bool \<Rightarrow> int \<Rightarrow> string \<Rightarrow> string \<Rightarrow> string \<Rightarrow> event list" where
  "user_steps c table_name found user_id user_name user_password password_hash =
     [Connect c, Cursor c,
      Execute c
        (''SELECT EXISTS(SELECT 1 FROM '' @ table_name @ '' WHERE username = '' @
         [CHR 0x27] @ user_name @ [CHR 0x27] @ '' LIMIT 1)'') [],
      Connect (c + 1), Cursor (c + 1),
      Connect (c + 2), Cursor (c + 2), Execute (c + 2) ''SELECT now()'' [],
      CloseCursor (c + 2), Close (c + 2),
      (if found
       then Execute (c + 1)
              (''UPDATE '' @ table_name @
               '' SET password_hash = %s, last_update_date = NOW() WHERE username = %s'')
              [SStr password_hash, SStr user_name]
       else Execute (c + 1)
              (''INSERT INTO '' @ table_name @
               '' (user_id, username, password, password_hash) VALUES (%s, %s, %s, %s)'')
              [SInt user_id, SStr user_name, SStr user_password, SStr password_hash]),
      Commit (c + 1), CloseCursor (c + 1)]"

text \<open>
  Example environments. In \<open>static_db\<close> the server accepts every connection and commit
  and answers a statement from its text and values alone.
\<close>

definition static_db :: "(string \<Rightarrow> scalar list \<Rightarrow> string + result_set) \<Rightarrow> env" where
  "static_db answer =
     \<lparr>db_host = ''localhost'', db_name = ''cargamos'', users_auth = ''cargamos.users_api'',
      connect_error = (\<lambda>t. None),
      execute_result = (\<lambda>t c sql params. answer sql params),
      commit_error = (\<lambda>t c. None),
      strptime = (\<lambda>text fmt. Some text)\<rparr>"

text \<open>No statement finds a row.\<close>

definition empty_db :: env where
  "empty_db = static_db (\<lambda>sql params. Inr (Some []))"

text \<open>The cursor holds no result at all.\<close>

definition absent_db :: env where
  "absent_db = static_db (\<lambda>sql params. Inr None)"

text \<open>
  A server that holds store 7 until something is committed: before the first commit every
  statement finds the row \<^verbatim>\<open>(7,)\<close>, after it none does.
\<close>

fun committed :: "event list \<Rightarrow> bool" where
  "committed [] = False"
| "committed (Commit c # t) = True"
| "committed (e # t) = committed t"

definition store_7_db :: env where
  "store_7_db =
     (static_db (\<lambda>sql params. Inr (Some [])))
       \<lparr>execute_result :=
          (\<lambda>t c sql params. Inr (Some (if committed t then [] else [Some [SInt 7]])))\<rparr>"

text \<open>Store 7 is still found whatever was executed before.\<close>

definition undeleted_db :: env where
  "undeleted_db = static_db (\<lambda>sql params. Inr (Some [Some [SInt 7]]))"

text \<open>The answer of \<^verbatim>\<open>SELECT EXISTS\<close> is one row of one boolean.\<close>

definition known_user_db :: env where
  "known_user_db = static_db (\<lambda>sql params. Inr (Some [Some [SBool True]]))"

definition unknown_user_db :: env where
  "unknown_user_db = static_db (\<lambda>sql params. Inr (Some [Some [SBool False]]))"

text \<open>
  A server that knows no user and rejects a statement whose single quotes do not pair
  up, as an SQL parser does.
\<close>

definition quote_checking_db :: env where
  "quote_checking_db =
     static_db (\<lambda>sql params.
       if even (length (filter (\<lambda>k. k = CHR 0x27) sql)) then Inr (Some [Some [SBool False]])
       else Inl ''syntax error'')"

text \<open>The server rejects every statement; the server fails every commit.\<close>

definition failing_db :: env where
  "failing_db = static_db (\<lambda>sql params. Inl ''deadlock detected'')"

definition commit_failing_db :: env where
  "commit_failing_db =
     (static_db (\<lambda>sql params. Inr (Some [])))\<lparr>commit_error := (\<lambda>t c. Some ''server closed'')\<rparr>"

definition van_model :: store_model_db where
  "van_model = \<lparr>tablename = ''urbvan.van'', uuid_van_column = ''uuid_van'',
                 plates_van_column = ''plates_van''\<rparr>"

text \<open>A store to insert, and the driver calls of \<^verbatim>\<open>insert_new_store\<close> before its INSERT.\<close>

definition sample_store :: store_model where
  "sample_store =
     \<lparr>get_id_store = 7, get_store_code = ''S7'', get_store_name = ''Centro'',
      get_external_number = ''123'', get_street_address = ''Reforma'',
      get_suburb_address = ''Centro'', get_city_address = ''CDMX'',
      get_country_address = ''Mexico'', get_zip_postal_address = ''06000'',
      get_minimum_stock = 10\<rparr>"

definition insert_prelude :: "nat \<Rightarrow> event list" where
  "insert_prelude c =
     [Connect c, Cursor c,
      Connect (c + 1), Cursor (c + 1), Execute (c + 1) ''SELECT now()'' [],
      CloseCursor (c + 1), Close (c + 1),
      Connect (c + 2), Cursor (c + 2), Execute (c + 2) ''SELECT now()'' [],
      CloseCursor (c + 2), Close (c + 2)]"

section \<open>Properties of the string helpers\<close>

lemma foldl_append_concat: "foldl (@) p ps = p @ concat ps"
  by (induction ps arbitrary: p) simp_all

lemma join_empty: "join [] parts = concat parts"
  by (cases parts) (simp_all add: join_def foldl_append_concat)

lemma scrub_filter: "scrub s = filter isalnum s"
  by (induction s) (simp_all add: scrub_def join_empty)

text \<open>
  C10. \<^verbatim>\<open>scrub(s)\<close> is the characters of \<open>s\<close> that are alphanumeric, in their order and
  nothing else; so scrubbing twice is scrubbing once, and a string that is alphanumeric
  throughout is returned as it is.
\<close>

theorem scrub_keeps_alnum_in_order:
  "scrub s = filter isalnum s \<and> scrub (scrub s) = scrub s \<and>
   (list_all isalnum s \<longrightarrow> scrub s = s)"
  by (simp add: scrub_filter list_all_iff)

theorem scrub_keeps_alnum_in_order_witness:
  "scrub ''a-b c1!'' = ''abc1'' \<and> scrub (scrub ''a-b c1!'') = ''abc1'' \<and>
   list_all isalnum ''Centro06000'' \<and> scrub ''Centro06000'' = ''Centro06000''"
proof -
  have alnum: "list_all isalnum ''Centro06000''"
    by (simp add: isalnum_def)
  have "scrub ''a-b c1!'' = filter isalnum ''a-b c1!''"
    using scrub_keeps_alnum_in_order [of "''a-b c1!''"] by blast
  then have first: "scrub ''a-b c1!'' = ''abc1''"
    by (simp add: isalnum_def)
  have second: "scrub (scrub ''a-b c1!'') = scrub ''a-b c1!''"
    using scrub_keeps_alnum_in_order [of "''a-b c1!''"] by blast
  have third: "scrub ''Centro06000'' = ''Centro06000''"
    using scrub_keeps_alnum_in_order [of "''Centro06000''"] alnum by blast
  show ?thesis using alnum first second third by simp
qed

text \<open>
  C9. The address formatter returns street, \<^verbatim>\<open>" no. "\<close>, external number, \<^verbatim>\<open>", col. "\<close>,
  suburb, \<^verbatim>\<open>", Cp. "\<close>, postal code, \<^verbatim>\<open>", "\<close>, city, \<^verbatim>\<open>", "\<close>, country, whatever the six
  strings are; for Reforma, 123, Centro, 06000, CDMX, Mexico that is
  \<^verbatim>\<open>Reforma no. 123, col. Centro, Cp. 06000, CDMX, Mexico\<close>.
\<close>

theorem format_store_address_exact:
  "format_store_address street number suburb code city country =
     Inr (street @ '' no. '' @ number @ '', col. '' @ suburb @ '', Cp. '' @ code @
          '', '' @ city @ '', '' @ country) \<and>
   format_store_address ''Reforma'' ''123'' ''Centro'' ''06000'' ''CDMX'' ''Mexico'' =
     Inr ''Reforma no. 123, col. Centro, Cp. 06000, CDMX, Mexico''"
  by (simp add: format_store_address_def)

section \<open>Properties of the transactions\<close>

lemmas prog_defs = ret_def raise_def lift_def bind_def emit_def try_finally_def
  except_SQLAlchemyError_def session_to_db_def conn_cursor_def create_cursor_def
  disconnect_from_db_def close_cursor_def commit_def rollback_def
  try_with_session_def rollback_and_raise_def

lemma isr_cases: "(case x of Inl a \<Rightarrow> False | Inr b \<Rightarrow> True) \<Longrightarrow> \<exists>r. x = Inr r"
  by (cases x) simp_all

lemma opened_append: "opened (t @ u) = opened t + opened u"
  by (induction t rule: opened.induct) simp_all

subsection \<open>Executing a statement\<close>

lemma bind_params_not_driver_error: "bind_params sql params \<noteq> Some (Psycopg2Error e)"
  by (induction sql params rule: bind_params.induct) (simp_all split: list.splits)

lemma execute_returned:
  assumes "fst (execute env c sql params t) = Inr r"
  shows "execute env c sql params t = (Inr r, t @ [Execute c sql params])"
  using assms by (auto simp: execute_def split: option.splits sum.splits if_splits)

lemma execute_rejected:
  assumes "fst (execute env c sql params t) = Inl (Psycopg2Error e)"
  shows "execute env c sql params t = (Inl (Psycopg2Error e), t @ [Execute c sql params])"
  using assms bind_params_not_driver_error [of sql params e]
  by (auto simp: execute_def split: option.splits sum.splits if_splits)

lemma execute_plain:
  "execute env c sql [] t =
     (case execute_result env t c sql [] of
        Inl error \<Rightarrow> (Inl (Psycopg2Error error), t @ [Execute c sql []])
      | Inr result \<Rightarrow> (Inr result, t @ [Execute c sql []]))"
  by (simp add: execute_def)

subsection \<open>The existence checks\<close>

lemma each_row_keeps: "fst (each_row column cursor rows d tr) = Inr v \<Longrightarrow> v = d"
proof (induction rows arbitrary: tr)
  case Nil
  then show ?case by (simp add: ret_def)
next
  case (Cons r rows)
  show ?case
  proof (cases r)
    case None
    with Cons show ?thesis by (simp add: prog_defs)
  next
    case (Some r_e)
    with Cons.prems show ?thesis by (simp add: prog_defs)
  qed
qed

lemma each_row_keeps_pair: "each_row column cursor rows d tr = (Inr v, tr') \<Longrightarrow> v = d"
  using each_row_keeps [of column cursor rows d tr v] by simp

lemma each_row_found: "each_row column cursor (Some r_e # rows) d tr = (Inl TypeError, tr)"
  by (simp add: prog_defs)

lemma exists_data_row_found:
  assumes "connect_error env t = None"
    and "first_answer env t (sql_exists_data_row table_name column f1 v1 f2 v2) [] =
         Inr (Some (Some r_e # rows))"
  shows "exists_data_row env table_name column f1 v1 f2 v2 t =
     (Inl TypeError,
      t @ [Connect (opened t), Cursor (opened t),
           Execute (opened t) (sql_exists_data_row table_name column f1 v1 f2 v2) [],
           Close (opened t)])"
proof -
  note run = execute_returned [OF assms(2) [unfolded first_answer_def]]
  show ?thesis
    using assms(1) by (simp add: exists_data_row_def prog_defs run)
qed

lemma exists_data_row_empty:
  assumes "connect_error env t = None"
    and "first_answer env t (sql_exists_data_row table_name column f1 v1 f2 v2) [] =
         Inr (Some [])"
  shows "exists_data_row env table_name column f1 v1 f2 v2 t =
     (Inr SNone,
      t @ [Connect (opened t), Cursor (opened t),
           Execute (opened t) (sql_exists_data_row table_name column f1 v1 f2 v2) [],
           Close (opened t)])"
proof -
  note run = execute_returned [OF assms(2) [unfolded first_answer_def]]
  show ?thesis
    using assms(1) by (simp add: exists_data_row_def prog_defs run)
qed

lemma exists_data_row_returns_None:
  assumes "fst (exists_data_row env table_name column f1 v1 f2 v2 t) = Inr v"
  shows "v = SNone"
  using assms
  by (auto simp: exists_data_row_def prog_defs
      split: option.splits prod.splits sum.splits py_error.splits dest: each_row_keeps_pair)

lemma validate_transaction_found:
  assumes "connect_error env t = None"
    and "first_answer env t
           (sql_validate_transaction table_name column f1 v1 f2 ([CHR 0x27] @ s2 @ [CHR 0x27])
              f3 ([CHR 0x27] @ s3 @ [CHR 0x27])) [] =
         Inr (Some (Some r_e # rows))"
  shows "validate_transaction env table_name column f1 v1 f2 (SStr s2) f3 (SStr s3) t =
     (Inl TypeError,
      t @ [Connect (opened t), Cursor (opened t),
           Execute (opened t)
             (sql_validate_transaction table_name column f1 v1 f2 ([CHR 0x27] @ s2 @ [CHR 0x27])
                f3 ([CHR 0x27] @ s3 @ [CHR 0x27])) [],
           Close (opened t)])"
proof -
  note run = execute_returned [OF assms(2) [unfolded first_answer_def]]
  show ?thesis
    using assms(1) run by (simp add: validate_transaction_def prog_defs quoted_def)
qed

lemma validate_transaction_empty:
  assumes "connect_error env t = None"
    and "first_answer env t
           (sql_validate_transaction table_name column f1 v1 f2 ([CHR 0x27] @ s2 @ [CHR 0x27])
              f3 ([CHR 0x27] @ s3 @ [CHR 0x27])) [] =
         Inr (Some [])"
  shows "fst (validate_transaction env table_name column f1 v1 f2 (SStr s2) f3 (SStr s3) t) =
     Inr SNone"
proof -
  note run = execute_returned [OF assms(2) [unfolded first_answer_def]]
  show ?thesis
    using assms(1) run by (simp add: validate_transaction_def prog_defs quoted_def)
qed

text \<open>
  C2. The driver hands back each row as a tuple, and both checks subscript the row by the
  column's name. So when the connection opens and the lookup finds a row,
  \<^verbatim>\<open>exists_data_row\<close> raises TypeError at the first row: its run is the connection, the
  cursor, the lookup and the close of the connection, and no value is returned;
  \<^verbatim>\<open>validate_transaction\<close> raises TypeError in the same way. When the lookup finds no row the
  check returns \<^verbatim>\<open>None\<close>, and \<^verbatim>\<open>None\<close> is the only value \<^verbatim>\<open>exists_data_row\<close> ever returns:
  never the selected column's value of a row.
\<close>

theorem existence_check_raises_on_found_row:
  assumes "connect_error env t = None"
  shows "(first_answer env t (sql_exists_data_row table_name column f1 v1 f2 v2) [] =
            Inr (Some (Some r_e # rows))
          \<longrightarrow> exists_data_row env table_name column f1 v1 f2 v2 t =
                (Inl TypeError,
                 t @ [Connect (opened t), Cursor (opened t),
                      Execute (opened t)
                        (sql_exists_data_row table_name column f1 v1 f2 v2) [],
                      Close (opened t)])) \<and>
         (first_answer env t
            (sql_validate_transaction table_name column f1 v1 f2 ([CHR 0x27] @ s2 @ [CHR 0x27])
               f3 ([CHR 0x27] @ s3 @ [CHR 0x27])) [] =
            Inr (Some (Some r_e # rows))
          \<longrightarrow> fst (validate_transaction env table_name column f1 v1 f2 (SStr s2) f3 (SStr s3) t) =
                Inl TypeError) \<and>
         (first_answer env t (sql_exists_data_row table_name column f1 v1 f2 v2) [] =
            Inr (Some [])
          \<longrightarrow> fst (exists_data_row env table_name column f1 v1 f2 v2 t) = Inr SNone) \<and>
         (fst (exists_data_row env table_name column f1 v1 f2 v2 t) = Inr v \<longrightarrow> v = SNone)"
  using assms
  by (simp add: exists_data_row_found exists_data_row_empty validate_transaction_found
      exists_data_row_returns_None)

theorem existence_check_raises_on_found_row_witness:
  "exists_data_row store_7_db ''cargamos.store_api'' ''id_store'' ''id_store'' (SInt 7)
     ''store_code'' (SStr ''S7'') [] =
     (Inl TypeError,
      [Connect 0, Cursor 0,
       Execute 0
         (''SELECT id_store FROM cargamos.store_api WHERE id_store = 7 AND store_code = '' @
          [CHR 0x27] @ ''S7'' @ [CHR 0x27]) [],
       Close 0]) \<and>
   fst (validate_transaction store_7_db ''cargamos.store_api'' ''id_store'' ''id_store'' (SInt 7)
          ''store_code'' (SStr ''S7'') ''store_name'' (SStr ''Centro'') []) = Inl TypeError \<and>
   fst (exists_data_row empty_db ''cargamos.store_api'' ''id_store'' ''id_store'' (SInt 7)
          ''store_code'' (SStr ''S7'') []) = Inr SNone"
proof -
  have connect: "connect_error store_7_db [] = None" "connect_error empty_db [] = None"
    by (simp_all add: store_7_db_def empty_db_def static_db_def)
  have stored: "first_answer store_7_db [] sql [] = Inr (Some (Some [SInt 7] # []))" for sql
    by (simp add: store_7_db_def static_db_def first_answer_def execute_def)
  have empty: "first_answer empty_db [] sql [] = Inr (Some [])" for sql
    by (simp add: empty_db_def static_db_def first_answer_def execute_def)
  have statement: "sql_exists_data_row ''cargamos.store_api'' ''id_store'' ''id_store'' (SInt 7)
      ''store_code'' (SStr ''S7'') =
      ''SELECT id_store FROM cargamos.store_api WHERE id_store = 7 AND store_code = '' @
      [CHR 0x27] @ ''S7'' @ [CHR 0x27]"
    by (simp add: sql_exists_data_row_def str_int_def str_nat.simps digit_char_def)
  show ?thesis
    using existence_check_raises_on_found_row [OF connect(1),
        where table_name = "''cargamos.store_api''" and column = "''id_store''"
        and ?f1.0 = "''id_store''" and ?v1.0 = "SInt 7" and ?f2.0 = "''store_code''"
        and ?v2.0 = "SStr ''S7''" and ?s2.0 = "''S7''" and ?f3.0 = "''store_name''"
        and ?s3.0 = "''Centro''" and r_e = "[SInt 7]" and rows = "[]"]
      existence_check_raises_on_found_row [OF connect(2),
        where table_name = "''cargamos.store_api''" and column = "''id_store''"
        and ?f1.0 = "''id_store''" and ?v1.0 = "SInt 7" and ?f2.0 = "''store_code''"
        and ?v2.0 = "SStr ''S7''"]
    by (simp add: stored empty statement)
qed

subsection \<open>Reading vans\<close>

text \<open>
  C3. In \<^verbatim>\<open>select_van_by_uuid\<close> and in \<^verbatim>\<open>select_van_by_status\<close>, a result that is present and
  empty is no error: the function returns the JSON text of the empty list. A result that
  is absent (\<^verbatim>\<open>None\<close>) raises the not-stored error. So reading by a status that no stored row
  has returns the empty list and does not raise.
\<close>

theorem select_van_empty_is_not_absent:
  assumes "connect_error env t = None"
  shows "(first_answer env t (sql_van_by table_name ''uuid_van'') [SStr uuid_van] = Inr (Some [])
            \<longrightarrow> fst (select_van_by_uuid env table_name uuid_van t) = Inr ''[]'') \<and>
         (first_answer env t (sql_van_by table_name ''uuid_van'') [SStr uuid_van] = Inr None
            \<longrightarrow> fst (select_van_by_uuid env table_name uuid_van t) =
                  Inl (ItemNotStored (not_stored_message uuid_van table_name))) \<and>
         (first_answer env t (sql_van_by table_name ''status_van'') [SStr status_van] = Inr (Some [])
            \<longrightarrow> fst (select_van_by_status env table_name status_van t) = Inr ''[]'') \<and>
         (first_answer env t (sql_van_by table_name ''status_van'') [SStr status_van] = Inr None
            \<longrightarrow> fst (select_van_by_status env table_name status_van t) =
                  Inl (ItemNotStored (not_stored_message status_van table_name)))"
proof -
  have run: "fst (select_van env table_name column wanted t) =
      (case r of Some rows \<Rightarrow> Inr ''[]''
       | None \<Rightarrow> Inl (ItemNotStored (not_stored_message wanted table_name)))"
    if "first_answer env t (sql_van_by table_name column) [SStr wanted] = Inr r"
      and "r = Some [] \<or> r = None" for column wanted r
  proof -
    note sent = execute_returned [OF that(1) [unfolded first_answer_def]]
    show ?thesis
      using assms that(2) by (auto simp: select_van_def prog_defs sent json_dumps_def)
  qed
  show ?thesis
    by (auto simp: select_van_by_uuid_def select_van_by_status_def dest: run)
qed

theorem select_van_empty_is_not_absent_witness:
  "fst (select_van_by_uuid empty_db ''urbvan.van'' ''6f1c'' []) = Inr ''[]'' \<and>
   fst (select_van_by_status empty_db ''urbvan.van'' ''active'' []) = Inr ''[]'' \<and>
   fst (select_van_by_uuid absent_db ''urbvan.van'' ''6f1c'' []) =
     Inl (ItemNotStored (not_stored_message ''6f1c'' ''urbvan.van'')) \<and>
   fst (select_van_by_status absent_db ''urbvan.van'' ''active'' []) =
     Inl (ItemNotStored (not_stored_message ''active'' ''urbvan.van''))"
proof -
  have connect: "connect_error empty_db [] = None" "connect_error absent_db [] = None"
    by (simp_all add: empty_db_def absent_db_def static_db_def)
  have empty:
    "first_answer empty_db [] (sql_van_by ''urbvan.van'' ''uuid_van'') [SStr wanted] =
       Inr (Some [])"
    "first_answer empty_db [] (sql_van_by ''urbvan.van'' ''status_van'') [SStr wanted] =
       Inr (Some [])" for wanted
    by (simp_all add: empty_db_def static_db_def first_answer_def execute_def sql_van_by_def)
  have absent:
    "first_answer absent_db [] (sql_van_by ''urbvan.van'' ''uuid_van'') [SStr wanted] =
       Inr None"
    "first_answer absent_db [] (sql_van_by ''urbvan.van'' ''status_van'') [SStr wanted] =
       Inr None" for wanted
    by (simp_all add: absent_db_def static_db_def first_answer_def execute_def sql_van_by_def)
  show ?thesis
    using select_van_empty_is_not_absent [OF connect(1), of "''urbvan.van''" "''6f1c''" "''active''"]
      select_van_empty_is_not_absent [OF connect(2), of "''urbvan.van''" "''6f1c''" "''active''"]
    by (simp add: empty absent)
qed

subsection \<open>Deleting a store\<close>

lemma str_nat_nonempty: "str_nat n \<noteq> []"
  by (subst str_nat.simps) simp

lemma digit_char_not_in_None: "digit_char d \<notin> set ''None''"
  by (simp add: digit_char_def)

lemma hd_str_nat: "hd (str_nat n) \<notin> set ''None''"
proof (induction n rule: str_nat.induct)
  case (1 n)
  show ?case
  proof (cases "n < 10")
    case True
    then show ?thesis
      by (subst str_nat.simps) (simp add: digit_char_not_in_None del: set_simps)
  next
    case False
    with 1 have "hd (str_nat (n div 10)) \<notin> set ''None''" by simp
    with False show ?thesis
      by (subst str_nat.simps) (simp add: str_nat_nonempty del: set_simps)
  qed
qed

lemma str_int_nonempty: "str_int i \<noteq> []"
  by (simp add: str_int_def str_nat_nonempty)

lemma hd_str_int: "hd (str_int i) \<notin> set ''None''"
proof (cases "i < 0")
  case True
  then show ?thesis by (simp add: str_int_def)
next
  case False
  then show ?thesis using hd_str_nat [of "nat i"] by (simp add: str_int_def del: set_simps)
qed

lemma str_in_hd: "str_in a b \<Longrightarrow> a \<noteq> [] \<Longrightarrow> hd a \<in> set b"
proof (induction b)
  case Nil
  then show ?case by simp
next
  case (Cons c b)
  show ?case
  proof (cases "prefix a (c # b)")
    case True
    with Cons.prems(2) have "hd a = c" by (cases a) simp_all
    then show ?thesis by simp
  next
    case False
    with Cons show ?thesis by simp
  qed
qed

lemma str_int_not_in_None: "\<not> str_in (str_int i) ''None''"
  using str_in_hd [of "str_int i" "''None''"] str_int_nonempty hd_str_int by blast

lemma str_in_refl: "str_in a a"
  by (cases a) simp_all

lemma exists_data_row_returns_None_pair:
  "exists_data_row env table_name column f1 v1 f2 v2 t = (Inr v, t') \<Longrightarrow> v = SNone"
  using exists_data_row_returns_None [of env table_name column f1 v1 f2 v2 t v] by simp

lemma delete_store_data_never_returns:
  "fst (delete_store_data env table_name store_id store_code t) \<noteq> Inr payload"
  using str_int_not_in_None [of store_id]
  by (auto simp: delete_store_data_def prog_defs json_dumps_def
      split: option.splits prod.splits sum.splits py_error.splits if_splits
      dest!: exists_data_row_returns_None_pair simp del: str_in.simps)

lemma delete_store_data_run:
  assumes "no_faults env t (delete_steps (opened t) table_name store_id store_code)"
    and "exists_data_row env table_name ''id_store'' ''id_store'' (SInt store_id)
           ''store_code'' (SStr store_code)
           (t @ delete_steps (opened t) table_name store_id store_code) = (res, t')"
    and "res = Inl TypeError \<or> res = Inr SNone"
  shows "delete_store_data env table_name store_id store_code t =
     ((case res of
         Inl e \<Rightarrow> Inl e
       | Inr row_exists \<Rightarrow>
           Inl (ItemNotStored (not_stored_message (str_int store_id) table_name))),
      t' @ [Close (opened t)])"
proof -
  let ?c = "opened t"
  let ?t1 = "t @ [Connect ?c, Cursor ?c]"
  let ?del = "Execute ?c (sql_delete_van table_name) [SInt store_id, SStr store_code]"
  have c0: "connect_error env t = None"
    and sent: "\<exists>r. fst (execute env ?c (sql_delete_van table_name)
                      [SInt store_id, SStr store_code] ?t1) = Inr r"
    and committed: "commit_error env (?t1 @ [?del]) ?c = None"
    using assms(1) by (auto simp: delete_steps_def dest: isr_cases)
  from sent obtain r where "fst (execute env ?c (sql_delete_van table_name)
      [SInt store_id, SStr store_code] ?t1) = Inr r" ..
  note run = execute_returned [OF this]
  have steps: "t @ [Connect ?c, Cursor ?c, ?del, Commit ?c, CloseCursor ?c] =
      t @ delete_steps ?c table_name store_id store_code"
    by (simp add: delete_steps_def)
  show ?thesis
    using c0 committed run assms(2) assms(3) str_int_not_in_None [of store_id]
    by (auto simp: delete_store_data_def prog_defs steps simp del: str_in.simps)
qed

text \<open>
  The two runs in full, on a database that holds no store and on one where store 7 is
  still found after the DELETE.
\<close>

lemma delete_store_data_examples:
  "delete_store_data empty_db ''cargamos.store_api'' 7 ''S7'' [] =
     (Inl (ItemNotStored (not_stored_message ''7'' ''cargamos.store_api'')),
      [Connect 0, Cursor 0,
       Execute 0 ''DELETE FROM cargamos.store_api WHERE id_store=%s AND store_code=%s''
         [SInt 7, SStr ''S7''],
       Commit 0, CloseCursor 0,
       Connect 1, Cursor 1,
       Execute 1
         (''SELECT id_store FROM cargamos.store_api WHERE id_store = 7 AND store_code = '' @
          [CHR 0x27] @ ''S7'' @ [CHR 0x27]) [],
       Close 1, Close 0]) \<and>
   delete_store_data undeleted_db ''cargamos.store_api'' 7 ''S7'' [] =
     (Inl TypeError,
      [Connect 0, Cursor 0,
       Execute 0 ''DELETE FROM cargamos.store_api WHERE id_store=%s AND store_code=%s''
         [SInt 7, SStr ''S7''],
       Commit 0, CloseCursor 0,
       Connect 1, Cursor 1,
       Execute 1
         (''SELECT id_store FROM cargamos.store_api WHERE id_store = 7 AND store_code = '' @
          [CHR 0x27] @ ''S7'' @ [CHR 0x27]) [],
       Close 1, Close 0])"
  by (simp add: delete_store_data_def exists_data_row_def prog_defs execute_def
      sql_delete_van_def sql_exists_data_row_def empty_db_def undeleted_db_def static_db_def
      str_int_def str_nat.simps digit_char_def)

text \<open>
  C4. \<^verbatim>\<open>delete_store_data\<close> never returns a payload. When the connection opens and the
  DELETE and its commit succeed, the existence check that follows decides how it raises:
  if the check finds no row, which is what a pair that matches no stored row leads to and
  also what a successful deletion leads to, the function raises the not-stored error,
  right after it has built the \<^verbatim>\<open>Store Deleted Successful\<close> payload; if the check still
  finds a row, the check itself raises TypeError at that row, and the
  \<^verbatim>\<open>Store not deleted\<close> payload is never built.
\<close>

theorem delete_raises_where_payload_expected:
  "fst (delete_store_data env table_name store_id store_code t) \<noteq> Inr payload \<and>
   (no_faults env t (delete_steps (opened t) table_name store_id store_code) \<and>
    connect_error env (t @ delete_steps (opened t) table_name store_id store_code) = None \<and>
    first_answer env (t @ delete_steps (opened t) table_name store_id store_code)
      (sql_exists_data_row table_name ''id_store'' ''id_store'' (SInt store_id)
         ''store_code'' (SStr store_code)) [] = Inr (Some [])
    \<longrightarrow> fst (delete_store_data env table_name store_id store_code t) =
          Inl (ItemNotStored (not_stored_message (str_int store_id) table_name))) \<and>
   (no_faults env t (delete_steps (opened t) table_name store_id store_code) \<and>
    connect_error env (t @ delete_steps (opened t) table_name store_id store_code) = None \<and>
    first_answer env (t @ delete_steps (opened t) table_name store_id store_code)
      (sql_exists_data_row table_name ''id_store'' ''id_store'' (SInt store_id)
         ''store_code'' (SStr store_code)) [] = Inr (Some (Some r_e # rows))
    \<longrightarrow> fst (delete_store_data env table_name store_id store_code t) = Inl TypeError)"
proof (intro conjI impI)
  show "fst (delete_store_data env table_name store_id store_code t) \<noteq> Inr payload"
    by (rule delete_store_data_never_returns)
next
  assume h: "no_faults env t (delete_steps (opened t) table_name store_id store_code) \<and>
    connect_error env (t @ delete_steps (opened t) table_name store_id store_code) = None \<and>
    first_answer env (t @ delete_steps (opened t) table_name store_id store_code)
      (sql_exists_data_row table_name ''id_store'' ''id_store'' (SInt store_id)
         ''store_code'' (SStr store_code)) [] = Inr (Some [])"
  then have steps: "no_faults env t (delete_steps (opened t) table_name store_id store_code)"
    and c: "connect_error env (t @ delete_steps (opened t) table_name store_id store_code) = None"
    and a: "first_answer env (t @ delete_steps (opened t) table_name store_id store_code)
      (sql_exists_data_row table_name ''id_store'' ''id_store'' (SInt store_id)
         ''store_code'' (SStr store_code)) [] = Inr (Some [])"
    by simp_all
  show "fst (delete_store_data env table_name store_id store_code t) =
      Inl (ItemNotStored (not_stored_message (str_int store_id) table_name))"
    using delete_store_data_run [OF steps exists_data_row_empty [OF c a]] by simp
next
  assume h: "no_faults env t (delete_steps (opened t) table_name store_id store_code) \<and>
    connect_error env (t @ delete_steps (opened t) table_name store_id store_code) = None \<and>
    first_answer env (t @ delete_steps (opened t) table_name store_id store_code)
      (sql_exists_data_row table_name ''id_store'' ''id_store'' (SInt store_id)
         ''store_code'' (SStr store_code)) [] = Inr (Some (Some r_e # rows))"
  then have steps: "no_faults env t (delete_steps (opened t) table_name store_id store_code)"
    and c: "connect_error env (t @ delete_steps (opened t) table_name store_id store_code) = None"
    and a: "first_answer env (t @ delete_steps (opened t) table_name store_id store_code)
      (sql_exists_data_row table_name ''id_store'' ''id_store'' (SInt store_id)
         ''store_code'' (SStr store_code)) [] = Inr (Some (Some r_e # rows))"
    by simp_all
  show "fst (delete_store_data env table_name store_id store_code t) = Inl TypeError"
    using delete_store_data_run [OF steps exists_data_row_found [OF c a]] by simp
qed

theorem delete_raises_where_payload_expected_witness:
  "fst (delete_store_data empty_db ''cargamos.store_api'' 7 ''S7'' []) =
     Inl (ItemNotStored (not_stored_message ''7'' ''cargamos.store_api'')) \<and>
   fst (delete_store_data store_7_db ''cargamos.store_api'' 7 ''S7'' []) =
     Inl (ItemNotStored (not_stored_message ''7'' ''cargamos.store_api'')) \<and>
   fst (delete_store_data undeleted_db ''cargamos.store_api'' 7 ''S7'' []) = Inl TypeError"
proof -
  let ?steps = "delete_steps 0 ''cargamos.store_api'' 7 ''S7''"
  let ?check = "sql_exists_data_row ''cargamos.store_api'' ''id_store'' ''id_store'' (SInt 7)
      ''store_code'' (SStr ''S7'')"
  have bound: "bind_params (sql_delete_van ''cargamos.store_api'') [SInt 7, SStr ''S7''] = None"
    by (simp add: sql_delete_van_def)
  have ok: "no_faults empty_db [] ?steps" "no_faults store_7_db [] ?steps"
    "no_faults undeleted_db [] ?steps"
    by (simp_all add: empty_db_def store_7_db_def undeleted_db_def static_db_def
        delete_steps_def execute_def bound)
  have c: "connect_error empty_db ?steps = None"
    "connect_error store_7_db ?steps = None"
    "connect_error undeleted_db ?steps = None"
    by (simp_all add: empty_db_def store_7_db_def undeleted_db_def static_db_def)
  have a1: "first_answer empty_db ?steps ?check [] = Inr (Some [])"
    by (simp add: empty_db_def static_db_def first_answer_def execute_def)
  have a2: "first_answer store_7_db ?steps ?check [] = Inr (Some [])"
    by (simp add: store_7_db_def static_db_def first_answer_def execute_def delete_steps_def)
  have a3: "first_answer undeleted_db ?steps ?check [] = Inr (Some (Some [SInt 7] # []))"
    by (simp add: undeleted_db_def static_db_def first_answer_def execute_def)
  have id: "str_int 7 = ''7''"
    by (simp add: str_int_def str_nat.simps digit_char_def)
  show ?thesis
    using delete_raises_where_payload_expected [of empty_db "''cargamos.store_api''" 7 "''S7''" "[]"]
      delete_raises_where_payload_expected [of store_7_db "''cargamos.store_api''" 7 "''S7''" "[]"]
      delete_raises_where_payload_expected [of undeleted_db "''cargamos.store_api''" 7 "''S7''" "[]"
        _ "[SInt 7]" "[]"]
    by (simp add: ok c a1 a2 a3 id)
qed

subsection \<open>Driver errors in the store writes\<close>

text \<open>
  C7. A driver error in a store write escapes the \<^verbatim>\<open>except SQLAlchemyError\<close> handler. When
  the DELETE of \<^verbatim>\<open>delete_store_data\<close> fails in the driver, or its commit does, the driver's
  error reaches the caller as it is: the run holds no rollback, and the error is not
  wrapped into a message with the table name. The connection is closed.
\<close>

theorem delete_driver_error_escapes_handler:
  assumes "connect_error env t = None"
  shows "(first_answer env t (sql_delete_van table_name) [SInt store_id, SStr store_code] =
            Inl (Psycopg2Error error)
          \<longrightarrow> delete_store_data env table_name store_id store_code t =
                (Inl (Psycopg2Error error),
                 t @ [Connect (opened t), Cursor (opened t),
                      Execute (opened t) (sql_delete_van table_name)
                        [SInt store_id, SStr store_code],
                      Close (opened t)])) \<and>
         (first_answer env t (sql_delete_van table_name) [SInt store_id, SStr store_code] =
            Inr r \<and>
          commit_error env
            (t @ [Connect (opened t), Cursor (opened t),
                  Execute (opened t) (sql_delete_van table_name)
                    [SInt store_id, SStr store_code]]) (opened t) = Some error
          \<longrightarrow> delete_store_data env table_name store_id store_code t =
                (Inl (Psycopg2Error error),
                 t @ [Connect (opened t), Cursor (opened t),
                      Execute (opened t) (sql_delete_van table_name)
                        [SInt store_id, SStr store_code],
                      Commit (opened t), Close (opened t)]))"
proof (intro conjI impI)
  assume "first_answer env t (sql_delete_van table_name) [SInt store_id, SStr store_code] =
      Inl (Psycopg2Error error)"
  note run = execute_rejected [OF this [unfolded first_answer_def]]
  show "delete_store_data env table_name store_id store_code t =
      (Inl (Psycopg2Error error),
       t @ [Connect (opened t), Cursor (opened t),
            Execute (opened t) (sql_delete_van table_name) [SInt store_id, SStr store_code],
            Close (opened t)])"
    using assms run by (simp add: delete_store_data_def prog_defs)
next
  assume h: "first_answer env t (sql_delete_van table_name) [SInt store_id, SStr store_code] =
      Inr r \<and>
    commit_error env
      (t @ [Connect (opened t), Cursor (opened t),
            Execute (opened t) (sql_delete_van table_name)
              [SInt store_id, SStr store_code]]) (opened t) = Some error"
  then have "first_answer env t (sql_delete_van table_name) [SInt store_id, SStr store_code] =
      Inr r" by simp
  note run = execute_returned [OF this [unfolded first_answer_def]]
  show "delete_store_data env table_name store_id store_code t =
      (Inl (Psycopg2Error error),
       t @ [Connect (opened t), Cursor (opened t),
            Execute (opened t) (sql_delete_van table_name) [SInt store_id, SStr store_code],
            Commit (opened t), Close (opened t)])"
    using assms run h by (simp add: delete_store_data_def prog_defs)
qed

theorem delete_driver_error_escapes_handler_witness:
  "delete_store_data failing_db ''cargamos.store_api'' 7 ''S7'' [] =
     (Inl (Psycopg2Error ''deadlock detected''),
      [Connect 0, Cursor 0,
       Execute 0 (sql_delete_van ''cargamos.store_api'') [SInt 7, SStr ''S7''], Close 0]) \<and>
   delete_store_data commit_failing_db ''cargamos.store_api'' 7 ''S7'' [] =
     (Inl (Psycopg2Error ''server closed''),
      [Connect 0, Cursor 0,
       Execute 0 (sql_delete_van ''cargamos.store_api'') [SInt 7, SStr ''S7''],
       Commit 0, Close 0])"
proof -
  have bound: "bind_params (sql_delete_van ''cargamos.store_api'') [SInt 7, SStr ''S7''] = None"
    by (simp add: sql_delete_van_def)
  have c: "connect_error failing_db [] = None" "connect_error commit_failing_db [] = None"
    by (simp_all add: failing_db_def commit_failing_db_def static_db_def)
  have e: "first_answer failing_db [] (sql_delete_van ''cargamos.store_api'')
      [SInt 7, SStr ''S7''] = Inl (Psycopg2Error ''deadlock detected'')"
    by (simp add: failing_db_def static_db_def first_answer_def execute_def bound)
  have k: "first_answer commit_failing_db [] (sql_delete_van ''cargamos.store_api'')
      [SInt 7, SStr ''S7''] = Inr (Some [])"
    "commit_error commit_failing_db
       [Connect 0, Cursor 0,
        Execute 0 (sql_delete_van ''cargamos.store_api'') [SInt 7, SStr ''S7'']] 0 =
     Some ''server closed''"
    by (simp_all add: commit_failing_db_def static_db_def first_answer_def execute_def bound)
  show ?thesis
    using delete_driver_error_escapes_handler [OF c(1), where table_name = "''cargamos.store_api''"
        and store_id = 7 and store_code = "''S7''" and error = "''deadlock detected''"]
      delete_driver_error_escapes_handler [OF c(2), where table_name = "''cargamos.store_api''"
        and store_id = 7 and store_code = "''S7''" and r = "Some []"
        and error = "''server closed''"]
    by (simp add: e k)
qed

text \<open>
  The same handler guards \<^verbatim>\<open>insert_new_store\<close> and \<^verbatim>\<open>update_store_data\<close>. Neither of them
  returns: \<^verbatim>\<open>update_store_data\<close> calls its dictionary argument, and the INSERT of
  \<^verbatim>\<open>insert_new_store\<close> has twelve placeholders for ten values.
\<close>

lemma driver_error_passes_handler:
  "fst (body t) = Inl (Psycopg2Error e) \<Longrightarrow> except_SQLAlchemyError body handler t = body t"
  by (cases "body t") (simp add: except_SQLAlchemyError_def)

lemma update_store_data_never_returns:
  "fst (update_store_data env table_name data_store t) \<noteq> Inr store_data_updated"
  by (simp add: update_store_data_def dict_call_def prog_defs
      split: prod.splits sum.splits option.splits py_error.splits)

lemma data_insert_too_short:
  "bind_params sql_store_insert (data_insert store_obj) = Some IndexError"
  by (simp add: sql_store_insert_def data_insert_def)

lemma execute_store_insert:
  "execute env c sql_store_insert (data_insert store_obj) t = (Inl IndexError, t)"
  by (simp add: execute_def data_insert_too_short) (simp add: data_insert_def)

lemma insert_new_store_never_returns:
  "fst (insert_new_store env table_name store_obj t) \<noteq> Inr store_data_inserted"
  by (simp add: insert_new_store_def prog_defs execute_store_insert
      split: prod.splits sum.splits option.splits py_error.splits)

lemma insert_new_store_run:
  assumes "no_faults env t (insert_prelude (opened t))"
  shows "insert_new_store env table_name store_obj t =
     (Inl IndexError, t @ insert_prelude (opened t) @ [Close (opened t)])"
proof -
  let ?c = "opened t"
  let ?t1 = "t @ [Connect ?c, Cursor ?c]"
  let ?t2 = "?t1 @ [Connect (?c + 1), Cursor (?c + 1)]"
  let ?t3 = "?t2 @ [Execute (?c + 1) ''SELECT now()'' [], CloseCursor (?c + 1), Close (?c + 1)]"
  let ?t4 = "?t3 @ [Connect (?c + 2), Cursor (?c + 2)]"
  have c0: "connect_error env t = None"
    and c1: "connect_error env ?t1 = None"
    and n1: "\<exists>r. fst (execute env (?c + 1) ''SELECT now()'' [] ?t2) = Inr r"
    and c2: "connect_error env ?t3 = None"
    and n2: "\<exists>r. fst (execute env (?c + 2) ''SELECT now()'' [] ?t4) = Inr r"
    using assms by (auto simp: insert_prelude_def dest: isr_cases)
  from n1 obtain r1 where "fst (execute env (?c + 1) ''SELECT now()'' [] ?t2) = Inr r1" ..
  note run1 = execute_returned [OF this]
  from n2 obtain r2 where "fst (execute env (?c + 2) ''SELECT now()'' [] ?t4) = Inr r2" ..
  note run2 = execute_returned [OF this]
  show ?thesis
    using c0 c1 c2 run1 run2
    by (simp add: insert_new_store_def get_datenow_from_db_def prog_defs insert_prelude_def
        opened_append execute_store_insert)
qed

subsection \<open>User authentication\<close>

lemma user_statements:
  "sql_check table_name user_name =
     ''SELECT EXISTS(SELECT 1 FROM '' @ table_name @ '' WHERE username = '' @
     [CHR 0x27] @ user_name @ [CHR 0x27] @ '' LIMIT 1)''"
  "sql_update_user table_name =
     ''UPDATE '' @ table_name @
     '' SET password_hash = %s, last_update_date = NOW() WHERE username = %s''"
  "sql_user_insert table_name =
     ''INSERT INTO '' @ table_name @
     '' (user_id, username, password, password_hash) VALUES (%s, %s, %s, %s)''"
  by (simp_all add: sql_check_def sql_update_user_def sql_user_insert_def)

lemma user_steps_statements:
  "user_steps c table_name found user_id user_name user_password password_hash =
     [Connect c, Cursor c, Execute c (sql_check table_name user_name) [],
      Connect (c + 1), Cursor (c + 1),
      Connect (c + 2), Cursor (c + 2), Execute (c + 2) ''SELECT now()'' [],
      CloseCursor (c + 2), Close (c + 2),
      (if found
       then Execute (c + 1) (sql_update_user table_name) [SStr password_hash, SStr user_name]
       else Execute (c + 1) (sql_user_insert table_name)
              [SInt user_id, SStr user_name, SStr user_password, SStr password_hash]),
      Commit (c + 1), CloseCursor (c + 1)]"
  by (simp add: user_steps_def user_statements)

text \<open>
  When the lookup is answered with one row of one boolean and no driver call fails, the run
  is \<open>user_steps\<close>: a true answer leads to the UPDATE of \<^verbatim>\<open>password_hash\<close> and
  \<^verbatim>\<open>last_update_date\<close> for that user name and no INSERT, a false answer to one INSERT of the
  credential row and no UPDATE. Either is committed; neither connection is closed.
\<close>

lemma user_upsert_run:
  assumes "first_answer env t
             (''SELECT EXISTS(SELECT 1 FROM '' @ users_auth env @ '' WHERE username = '' @
              [CHR 0x27] @ user_name @ [CHR 0x27] @ '' LIMIT 1)'') [] =
           Inr (Some [Some [SBool found]])"
    and "no_faults env t
           (user_steps (opened t) (users_auth env) found user_id user_name user_password
              password_hash)"
  shows "manage_user_authentication env user_id user_name user_password password_hash t =
     (Inr (),
      t @ user_steps (opened t) (users_auth env) found user_id user_name user_password
            password_hash)"
proof -
  define chk where "chk = sql_check (users_auth env) user_name"
  define upd where "upd = sql_update_user (users_auth env)"
  define ins where "ins = sql_user_insert (users_auth env)"
  let ?c = "opened t"
  let ?t1 = "t @ [Connect ?c, Cursor ?c, Execute ?c chk []]"
  let ?t2 = "?t1 @ [Connect (?c + 1), Cursor (?c + 1)]"
  let ?t3 = "?t2 @ [Connect (?c + 2), Cursor (?c + 2)]"
  let ?t4 = "?t3 @ [Execute (?c + 2) ''SELECT now()'' [], CloseCursor (?c + 2), Close (?c + 2)]"
  let ?stmt = "if found then upd else ins"
  let ?ps = "if found then [SStr password_hash, SStr user_name]
             else [SInt user_id, SStr user_name, SStr user_password, SStr password_hash]"
  note steps = user_steps_statements [of "opened t" "users_auth env" found user_id user_name
      user_password password_hash, folded chk_def upd_def ins_def]
  have c0: "connect_error env t = None"
    and c1: "connect_error env ?t1 = None"
    and c2: "connect_error env ?t2 = None"
    and now_ok: "\<exists>r. fst (execute env (?c + 2) ''SELECT now()'' [] ?t3) = Inr r"
    and write_ok: "\<exists>r. fst (execute env (?c + 1) ?stmt ?ps ?t4) = Inr r"
    and commit_ok: "commit_error env (?t4 @ [Execute (?c + 1) ?stmt ?ps]) (?c + 1) = None"
    using assms(2) unfolding steps
    by (auto dest: isr_cases split: if_splits sum.splits)
  from now_ok obtain r1 where "fst (execute env (?c + 2) ''SELECT now()'' [] ?t3) = Inr r1" ..
  note run1 = execute_returned [OF this]
  from write_ok obtain r2 where "fst (execute env (?c + 1) ?stmt ?ps ?t4) = Inr r2" ..
  note run2 = execute_returned [OF this]
  have "fst (execute env ?c chk [] (t @ [Connect ?c, Cursor ?c])) =
      Inr (Some [Some [SBool found]])"
    using assms(1) by (simp add: first_answer_def chk_def user_statements)
  note look = execute_returned [OF this]
  note folded = chk_def [symmetric] upd_def [symmetric] ins_def [symmetric]
  show ?thesis
  proof (cases found)
    case True
    with c0 c1 c2 run1 run2 commit_ok look show ?thesis
      unfolding steps
      by (simp add: manage_user_authentication_def validate_user_exists_def
          update_user_password_hashed_def get_datenow_from_db_def first_cell_def fetchone_def
          prog_defs opened_append folded)
  next
    case False
    with c0 c1 c2 run1 run2 commit_ok look show ?thesis
      unfolding steps
      by (simp add: manage_user_authentication_def validate_user_exists_def
          insert_user_authenticated_def get_datenow_from_db_def first_cell_def fetchone_def
          prog_defs opened_append folded)
  qed
qed

lemma user_upsert_run_examples:
  "manage_user_authentication known_user_db 42 ''alice'' ''secret'' ''h1'' [] =
     (Inr (), user_steps 0 ''cargamos.users_api'' True 42 ''alice'' ''secret'' ''h1'') \<and>
   manage_user_authentication unknown_user_db 42 ''alice'' ''secret'' ''h1'' [] =
     (Inr (), user_steps 0 ''cargamos.users_api'' False 42 ''alice'' ''secret'' ''h1'')"
  by (simp add: manage_user_authentication_def validate_user_exists_def
      update_user_password_hashed_def insert_user_authenticated_def get_datenow_from_db_def
      first_cell_def fetchone_def prog_defs execute_def user_steps_def user_statements
      known_user_db_def unknown_user_db_def static_db_def)

text \<open>
  C6. The lookup of \<^verbatim>\<open>manage_user_authentication\<close> is the statement
  \<^verbatim>\<open>SELECT EXISTS(SELECT 1 FROM <table> WHERE username = '<user_name>' LIMIT 1)\<close>, with the
  user name pasted between two single quotes and no value bound. When the connection opens
  and the server rejects that statement, as it does for a name that holds a single quote,
  the driver's error reaches the caller as it is and the run ends with the lookup: no
  UPDATE, no INSERT, no commit, and the connection is left open. A user that is absent is
  then not inserted.
\<close>

theorem user_lookup_rejected_writes_nothing:
  assumes "connect_error env t = None"
    and "first_answer env t
           (''SELECT EXISTS(SELECT 1 FROM '' @ users_auth env @ '' WHERE username = '' @
            [CHR 0x27] @ user_name @ [CHR 0x27] @ '' LIMIT 1)'') [] =
         Inl (Psycopg2Error error)"
  shows "manage_user_authentication env user_id user_name user_password password_hash t =
     (Inl (Psycopg2Error error),
      t @ [Connect (opened t), Cursor (opened t),
           Execute (opened t)
             (''SELECT EXISTS(SELECT 1 FROM '' @ users_auth env @ '' WHERE username = '' @
              [CHR 0x27] @ user_name @ [CHR 0x27] @ '' LIMIT 1)'') []])"
proof -
  note run = execute_rejected [OF assms(2) [unfolded first_answer_def]]
  show ?thesis
    using assms(1) run
    by (simp add: manage_user_authentication_def validate_user_exists_def prog_defs
        user_statements)
qed

theorem user_lookup_rejected_writes_nothing_witness:
  "manage_user_authentication quote_checking_db 42 (''o'' @ [CHR 0x27] @ ''brien'') ''secret''
     ''h1'' [] =
     (Inl (Psycopg2Error ''syntax error''),
      [Connect 0, Cursor 0,
       Execute 0
         (''SELECT EXISTS(SELECT 1 FROM cargamos.users_api WHERE username = '' @
          [CHR 0x27] @ ''o'' @ [CHR 0x27] @ ''brien'' @ [CHR 0x27] @ '' LIMIT 1)'') []])"
proof -
  have c: "connect_error quote_checking_db [] = None"
    by (simp add: quote_checking_db_def static_db_def)
  have table: "users_auth quote_checking_db = ''cargamos.users_api''"
    by (simp add: quote_checking_db_def static_db_def)
  have rejected: "first_answer quote_checking_db []
      (''SELECT EXISTS(SELECT 1 FROM '' @ users_auth quote_checking_db @
       '' WHERE username = '' @ [CHR 0x27] @ (''o'' @ [CHR 0x27] @ ''brien'') @ [CHR 0x27] @
       '' LIMIT 1)'') [] = Inl (Psycopg2Error ''syntax error'')"
    by (simp add: quote_checking_db_def static_db_def first_answer_def execute_def)
  show ?thesis
    using user_lookup_rejected_writes_nothing [OF c rejected, of 42 "''secret''" "''h1''"]
    by (simp add: table)
qed

text \<open>
  The transactions written with \<^verbatim>\<open>try ... finally: disconnect_from_db(conn)\<close> close the
  connection they opened on every exit.
\<close>

lemma try_with_session_closes:
  assumes "connect_error env t = None"
  shows "snd (try_with_session env body t) =
     snd (body (opened t) (t @ [Connect (opened t)])) @ [Close (opened t)]"
  using assms by (simp add: prog_defs split: prod.splits)

text \<open>
  C8. \<^verbatim>\<open>validate_user_exists\<close> does not: whether its statement succeeds or fails, its run
  is the connection, the cursor and the statement, and no close of the connection.
\<close>

theorem user_lookup_never_closes:
  assumes "connect_error env t = None"
  shows "snd (validate_user_exists env user_name t) =
     t @ [Connect (opened t), Cursor (opened t),
          Execute (opened t) (sql_check (users_auth env) user_name) []]"
  using assms
  by (simp add: validate_user_exists_def prog_defs execute_def split: sum.splits)

theorem user_lookup_never_closes_witness:
  "validate_user_exists unknown_user_db ''alice'' [] =
     (Inr (Some [SBool False]),
      [Connect 0, Cursor 0, Execute 0 (sql_check ''cargamos.users_api'' ''alice'') []])"
proof -
  have c: "connect_error unknown_user_db [] = None"
    by (simp add: unknown_user_db_def static_db_def)
  have "fst (validate_user_exists unknown_user_db ''alice'' []) = Inr (Some [SBool False])"
    by (simp add: validate_user_exists_def prog_defs execute_def unknown_user_db_def
        static_db_def fetchone_def)
  with user_lookup_never_closes [OF c, of "''alice''"] show ?thesis
    by (simp add: prod_eq_iff unknown_user_db_def static_db_def)
qed

subsection \<open>The Van upsert\<close>

text \<open>
  C1. \<^verbatim>\<open>manage_van_vehicle_data\<close> never returns a result. It first runs the existence check
  on the uuid and plates columns; when the check returns, whatever it found, the call of
  \<^verbatim>\<open>update_store_data\<close> or of \<^verbatim>\<open>insert_new_store\<close> raises TypeError, and no driver call
  follows those of the check.
\<close>

theorem van_upsert_never_returns:
  "fst (manage_van_vehicle_data env self uuid_van plates_van economic_number_van seats_van
          status_van t) \<noteq> Inr van_data \<and>
   (fst (exists_data_row env (tablename self) (uuid_van_column self) (uuid_van_column self)
           uuid_van (plates_van_column self) plates_van t) = Inr found
    \<longrightarrow> manage_van_vehicle_data env self uuid_van plates_van economic_number_van seats_van
          status_van t =
        (Inl TypeError,
         snd (exists_data_row env (tablename self) (uuid_van_column self)
                (uuid_van_column self) uuid_van (plates_van_column self) plates_van t)))"
  by (simp add: manage_van_vehicle_data_def bind_def raise_def split: prod.splits sum.splits)

theorem van_upsert_never_returns_witness:
  "manage_van_vehicle_data empty_db van_model (SStr ''a41e'') (SStr ''XYZ-987'')
     (SStr ''E-1'') (SInt 8) (SStr ''inactive'') [] =
     (Inl TypeError,
      [Connect 0, Cursor 0,
       Execute 0 (sql_exists_data_row ''urbvan.van'' ''uuid_van'' ''uuid_van'' (SStr ''a41e'')
                    ''plates_van'' (SStr ''XYZ-987'')) [],
       Close 0])"
proof -
  have check: "exists_data_row empty_db (tablename van_model) (uuid_van_column van_model)
      (uuid_van_column van_model) (SStr ''a41e'') (plates_van_column van_model)
      (SStr ''XYZ-987'') [] =
      (Inr SNone,
       [Connect 0, Cursor 0,
        Execute 0 (sql_exists_data_row ''urbvan.van'' ''uuid_van'' ''uuid_van'' (SStr ''a41e'')
                     ''plates_van'' (SStr ''XYZ-987'')) [],
        Close 0])"
    by (simp add: exists_data_row_def prog_defs execute_def empty_db_def static_db_def
        van_model_def)
  show ?thesis
    using van_upsert_never_returns [of empty_db van_model "SStr ''a41e''"
        "SStr ''XYZ-987''" "SStr ''E-1''" "SInt 8" "SStr ''inactive''" "[]" _ SNone]
    by (simp add: check)
qed

text \<open>
  C5. An upsert of a van that the database does not hold runs the existence check and
  nothing else: no \<^verbatim>\<open>SELECT nextval\<close>, no INSERT. \<^verbatim>\<open>insert_new_store\<close>, called as it is
  declared, executes the clock query twice and raises IndexError when the driver binds the
  ten values of the caller's object to the twelve placeholders of its INSERT, which is
  never sent: no \<^verbatim>\<open>SELECT nextval\<close> either, and no row stored.
\<close>

theorem van_insert_path_runs_no_nextval:
  "manage_van_vehicle_data empty_db van_model (SStr ''6f1c'') (SStr ''ABC-123'') (SStr ''E-9'')
     (SInt 12) (SStr ''active'') [] =
     (Inl TypeError,
      [Connect 0, Cursor 0,
       Execute 0 (sql_exists_data_row ''urbvan.van'' ''uuid_van'' ''uuid_van'' (SStr ''6f1c'')
                    ''plates_van'' (SStr ''ABC-123'')) [],
       Close 0]) \<and>
   insert_new_store empty_db ''cargamos.store_api'' sample_store [] =
     (Inl IndexError, insert_prelude 0 @ [Close 0])"
proof -
  have prelude: "no_faults empty_db [] (insert_prelude (opened []))"
    by (simp add: insert_prelude_def empty_db_def static_db_def execute_def)
  show ?thesis
    using insert_new_store_run [OF prelude, of "''cargamos.store_api''" sample_store]
    by (simp add: manage_van_vehicle_data_def exists_data_row_def prog_defs execute_def
        empty_db_def static_db_def van_model_def)
qed

end
